theory Spec2Isabelle
  imports Complex_Main
begin

section \<open>Numbers of the program\<close>

text \<open>
  Every coordinate, velocity and time of the game is a Python float. The collision code
  builds \<^verbatim>\<open>float('inf')\<close> itself, so infinities and the values computed from them are
  part of the program's behaviour. A float is modelled as a real number or one of the
  three special values; arithmetic on finite values is exact (no rounding, no overflow),
  and the special values follow IEEE 754 as Python exposes it.
\<close>

datatype pyfloat = Fin real | PInf | NInf | NaN

instantiation pyfloat :: "{plus, minus, uminus, times, inverse, abs, ord}"
begin

fun uminus_pyfloat :: "pyfloat \<Rightarrow> pyfloat" where
  "uminus_pyfloat (Fin a) = Fin (- a)"
| "uminus_pyfloat PInf = NInf"
| "uminus_pyfloat NInf = PInf"
| "uminus_pyfloat NaN = NaN"

fun plus_pyfloat :: "pyfloat \<Rightarrow> pyfloat \<Rightarrow> pyfloat" where
  "plus_pyfloat (Fin a) (Fin b) = Fin (a + b)"
| "plus_pyfloat NaN _ = NaN"
| "plus_pyfloat _ NaN = NaN"
| "plus_pyfloat PInf NInf = NaN"
| "plus_pyfloat NInf PInf = NaN"
| "plus_pyfloat PInf _ = PInf"
| "plus_pyfloat _ PInf = PInf"
| "plus_pyfloat NInf _ = NInf"
| "plus_pyfloat _ NInf = NInf"

definition minus_pyfloat :: "pyfloat \<Rightarrow> pyfloat \<Rightarrow> pyfloat" where
  "minus_pyfloat x y = x + (- y)"

fun times_pyfloat :: "pyfloat \<Rightarrow> pyfloat \<Rightarrow> pyfloat" where
  "times_pyfloat (Fin a) (Fin b) = Fin (a * b)"
| "times_pyfloat NaN _ = NaN"
| "times_pyfloat _ NaN = NaN"
| "times_pyfloat (Fin a) PInf = (if a = 0 then NaN else if 0 < a then PInf else NInf)"
| "times_pyfloat (Fin a) NInf = (if a = 0 then NaN else if 0 < a then NInf else PInf)"
| "times_pyfloat PInf (Fin b) = (if b = 0 then NaN else if 0 < b then PInf else NInf)"
| "times_pyfloat NInf (Fin b) = (if b = 0 then NaN else if 0 < b then NInf else PInf)"
| "times_pyfloat PInf PInf = PInf"
| "times_pyfloat NInf NInf = PInf"
| "times_pyfloat PInf NInf = NInf"
| "times_pyfloat NInf PInf = NInf"

text \<open>
  Python raises ZeroDivisionError on a zero divisor. \<open>x / y\<close> below is the quotient for a
  divisor that is not zero; the one division of the program that no test guards goes
  through \<open>py_div\<close> further down, which raises. A zero divisor is given \<open>NaN\<close> here so
  that no finite value is ever invented for it.
\<close>

fun divide_pyfloat :: "pyfloat \<Rightarrow> pyfloat \<Rightarrow> pyfloat" where
  "divide_pyfloat (Fin a) (Fin b) = (if b = 0 then NaN else Fin (a / b))"
| "divide_pyfloat NaN _ = NaN"
| "divide_pyfloat _ NaN = NaN"
| "divide_pyfloat (Fin a) PInf = Fin 0"
| "divide_pyfloat (Fin a) NInf = Fin 0"
| "divide_pyfloat PInf (Fin b) = (if b = 0 then NaN else if 0 < b then PInf else NInf)"
| "divide_pyfloat NInf (Fin b) = (if b = 0 then NaN else if 0 < b then NInf else PInf)"
| "divide_pyfloat PInf PInf = NaN"
| "divide_pyfloat NInf NInf = NaN"
| "divide_pyfloat PInf NInf = NaN"
| "divide_pyfloat NInf PInf = NaN"

definition inverse_pyfloat :: "pyfloat \<Rightarrow> pyfloat" where
  "inverse_pyfloat x = divide (Fin 1) x"

fun abs_pyfloat :: "pyfloat \<Rightarrow> pyfloat" where
  "abs_pyfloat (Fin a) = Fin \<bar>a\<bar>"
| "abs_pyfloat PInf = PInf"
| "abs_pyfloat NInf = PInf"
| "abs_pyfloat NaN = NaN"

text \<open>Every comparison with \<open>NaN\<close> is false.\<close>

fun less_pyfloat :: "pyfloat \<Rightarrow> pyfloat \<Rightarrow> bool" where
  "less_pyfloat (Fin a) (Fin b) = (a < b)"
| "less_pyfloat NaN _ = False"
| "less_pyfloat _ NaN = False"
| "less_pyfloat _ NInf = False"
| "less_pyfloat PInf _ = False"
| "less_pyfloat NInf _ = True"
| "less_pyfloat _ PInf = True"

fun less_eq_pyfloat :: "pyfloat \<Rightarrow> pyfloat \<Rightarrow> bool" where
  "less_eq_pyfloat (Fin a) (Fin b) = (a \<le> b)"
| "less_eq_pyfloat NaN _ = False"
| "less_eq_pyfloat _ NaN = False"
| "less_eq_pyfloat NInf _ = True"
| "less_eq_pyfloat _ PInf = True"
| "less_eq_pyfloat _ NInf = False"
| "less_eq_pyfloat PInf _ = False"

instance ..

end

text \<open>\<^verbatim>\<open>x ** 2\<close>: the square.\<close>

fun py_sq :: "pyfloat \<Rightarrow> pyfloat" where
  "py_sq (Fin a) = Fin (a\<^sup>2)"
| "py_sq PInf = PInf"
| "py_sq NInf = PInf"
| "py_sq NaN = NaN"

text \<open>
  \<^verbatim>\<open>x ** 0.5\<close>. The program only takes it of a sum of two squares, which is never
  negative; Python would answer a negative finite base with a complex number.
\<close>

fun py_sqrt :: "pyfloat \<Rightarrow> pyfloat" where
  "py_sqrt (Fin a) = Fin (sqrt a)"
| "py_sqrt PInf = PInf"
| "py_sqrt NInf = PInf"
| "py_sqrt NaN = NaN"

text \<open>\<^verbatim>\<open>min(a, b)\<close> keeps its first argument unless the second is smaller.\<close>

definition py_min :: "pyfloat \<Rightarrow> pyfloat \<Rightarrow> pyfloat" where
  "py_min a b = (if b < a then b else a)"

datatype error = ZeroDivisionError | TypeError | IndexError | SystemExit

definition py_div :: "pyfloat \<Rightarrow> pyfloat \<Rightarrow> error + pyfloat" where
  "py_div x y = (if y = Fin 0 then Inl ZeroDivisionError else Inr (x / y))"


section \<open>Bullet\<close>

text \<open>
  Positions, velocities and accelerations are two-element Python lists, updated in place;
  here they are pairs, and every function returns the updated object.
\<close>

type_synonym vec = "pyfloat \<times> pyfloat"

text \<open>
  The fields \<^verbatim>\<open>position\<close> and \<^verbatim>\<open>velocity\<close> of a bullet are \<open>b_position\<close> and \<open>b_velocity\<close>
  here: the player has fields of the same names.
\<close>

record Bullet =
  b_position :: vec
  b_velocity :: vec
  was_shot :: bool

definition new_bullet :: Bullet where
  "new_bullet = \<lparr>b_position = (Fin (- 100), Fin (- 100)), b_velocity = (Fin 0, Fin 0),
                 was_shot = False\<rparr>"

definition reset_bullet :: "Bullet \<Rightarrow> Bullet" where
  "reset_bullet b = b\<lparr>b_position := (Fin (- 100), Fin 100), b_velocity := (Fin 0, Fin 0),
                      was_shot := False\<rparr>"

definition update_bullet :: "pyfloat \<Rightarrow> Bullet \<Rightarrow> Bullet" where
  "update_bullet delta_t b =
     (if was_shot b
      then b\<lparr>b_position := (fst (b_position b) + fst (b_velocity b) * delta_t,
                              snd (b_position b) + snd (b_velocity b) * delta_t)\<rparr>
      else b)"

section \<open>Rectangles of the graphics library\<close>

text \<open>
  \<^verbatim>\<open>get_rect\<close> asks pygame for the rectangle of an image and assigns its \<^verbatim>\<open>center\<close>.
  pygame is not part of the repository; what the program relies on is modelled here.
  A pygame Rect holds four 32-bit integers: left, top, width and height. Its right and
  bottom edges are sums computed in 32 bits, and the centre of a rectangle of width \<open>w\<close> is
  \<open>w div 2\<close> to the right of its left edge. Two rectangles of positive size collide when
  they overlap on both axes; sharing only an edge is no collision.
\<close>

definition int32 :: "int \<Rightarrow> int" where
  "int32 k = (k + 2147483648) mod 4294967296 - 2147483648"

record Rect =
  r_left :: int
  r_top :: int
  r_width :: int
  r_height :: int

definition r_right :: "Rect \<Rightarrow> int" where
  "r_right r = int32 (r_left r + r_width r)"

definition r_bottom :: "Rect \<Rightarrow> int" where
  "r_bottom r = int32 (r_top r + r_height r)"

text \<open>
  Assigning the centre converts each float coordinate to an integer, and how it does so
  depends on the version of the library: the one the game was written for drops the
  fraction and rejects a coordinate that is not a number, later ones round to the nearest
  integer, reject a coordinate beyond 32 bits and let nan through. The conversion is
  therefore a parameter \<open>conv\<close> of everything that takes a rectangle; it answers with the
  integer or with the error the assignment raises.
\<close>

definition rect_centered :: "(pyfloat \<Rightarrow> error + int) \<Rightarrow> int \<times> int \<Rightarrow> vec \<Rightarrow> error + Rect" where
  "rect_centered conv sz c =
     (case conv (fst c) of
        Inl e \<Rightarrow> Inl e
      | Inr cx \<Rightarrow>
          (case conv (snd c) of
             Inl e \<Rightarrow> Inl e
           | Inr cy \<Rightarrow>
               Inr \<lparr>r_left = int32 (cx - fst sz div 2), r_top = int32 (cy - snd sz div 2),
                    r_width = fst sz, r_height = snd sz\<rparr>))"

text \<open>
  What every version does with a whole number that fits in 32 bits: it is converted to
  itself.
\<close>

definition exact_on_ints :: "(pyfloat \<Rightarrow> error + int) \<Rightarrow> bool" where
  "exact_on_ints conv \<longleftrightarrow>
     (\<forall>k. - 2147483648 \<le> k \<and> k \<le> 2147483647 \<longrightarrow> conv (Fin (of_int k)) = Inr k)"

text \<open>
  The conversion of the later versions, for the examples: a number within 32 bits is
  rounded to the nearest integer, a half away from zero; a number beyond 32 bits and an
  infinity raise TypeError; nan is let through and comes out as an integer the library
  does not define, taken to be the smallest one here. No property below depends on what
  becomes of a half or of nan, except the example of the 51 pixel image, where 1574.5
  becomes 1575.
\<close>

definition round_half_away :: "real \<Rightarrow> int" where
  "round_half_away a = (if 0 \<le> a then \<lfloor>a + 1 / 2\<rfloor> else \<lceil>a - 1 / 2\<rceil>)"

fun nearest_int :: "pyfloat \<Rightarrow> error + int" where
  "nearest_int (Fin a) =
     (if - 2147483648 \<le> a \<and> a \<le> 2147483647 then Inr (round_half_away a) else Inl TypeError)"
| "nearest_int NaN = Inr (- 2147483648)"
| "nearest_int PInf = Inl TypeError"
| "nearest_int NInf = Inl TypeError"

definition colliderect :: "Rect \<Rightarrow> Rect \<Rightarrow> bool" where
  "colliderect a b \<longleftrightarrow>
     r_width a \<noteq> 0 \<and> r_height a \<noteq> 0 \<and> r_width b \<noteq> 0 \<and> r_height b \<noteq> 0 \<and>
     min (r_left a) (r_right a) < max (r_left b) (r_right b) \<and>
     min (r_top a) (r_bottom a) < max (r_top b) (r_bottom b) \<and>
     max (r_left a) (r_right a) > min (r_left b) (r_right b) \<and>
     max (r_top a) (r_bottom a) > min (r_top b) (r_bottom b)"

text \<open>The bullet's image is scaled to 20 by 20 pixels when the bullet is created.\<close>

definition bullet_get_rect :: "(pyfloat \<Rightarrow> error + int) \<Rightarrow> Bullet \<Rightarrow> error + Rect" where
  "bullet_get_rect conv b = rect_centered conv (20, 20) (b_position b)"

section \<open>Player\<close>

text \<open>
  The crosshair starts as a list; \<^verbatim>\<open>pygame.mouse.get_pos()\<close> replaces it by a tuple,
  and a tuple refuses item assignment.
\<close>

datatype pyseq = PyList pyfloat pyfloat | PyTuple pyfloat pyfloat

fun item0 :: "pyseq \<Rightarrow> pyfloat" where
  "item0 (PyList a b) = a"
| "item0 (PyTuple a b) = a"

fun item1 :: "pyseq \<Rightarrow> pyfloat" where
  "item1 (PyList a b) = b"
| "item1 (PyTuple a b) = b"

fun set_item0 :: "pyseq \<Rightarrow> pyfloat \<Rightarrow> error + pyseq" where
  "set_item0 (PyList a b) v = Inr (PyList v b)"
| "set_item0 (PyTuple a b) v = Inl TypeError"

fun set_item1 :: "pyseq \<Rightarrow> pyfloat \<Rightarrow> error + pyseq" where
  "set_item1 (PyList a b) v = Inr (PyList a v)"
| "set_item1 (PyTuple a b) v = Inl TypeError"

text \<open>
  \<open>img_size\<close> is the size of the player's image, all that the physics uses of it. The image
  file is not part of the sources, so its size is a parameter of the model.
\<close>

text \<open>
  \<^verbatim>\<open>Player.__init__\<close> keeps the list it is given as the player's position and
  \<^verbatim>\<open>update\<close> changes that list in place, so two players built from one list move together.
  A position argument is either a list nobody else holds (a literal written in the call)
  or the caller's list object number \<open>k\<close>; \<open>position_id\<close> remembers the number.
\<close>

datatype position_arg = Own vec | Shared nat vec

fun contents :: "position_arg \<Rightarrow> vec" where
  "contents (Own v) = v"
| "contents (Shared k v) = v"

fun identity :: "position_arg \<Rightarrow> nat option" where
  "identity (Own v) = None"
| "identity (Shared k v) = Some k"

record Player =
  position :: vec
  position_id :: "nat option"
  velocity :: vec
  acceleration :: vec
  crosshair :: pyseq
  bullet :: Bullet
  score :: int
  img_size :: "int \<times> int"

record Actions =
  up :: bool
  down :: bool
  left :: bool
  right :: bool
  shoot :: bool
  ch_up :: bool
  ch_down :: bool
  ch_left :: bool
  ch_right :: bool
  ch_mouse :: bool

text \<open>The answer of the default \<^verbatim>\<open>decide_action\<close>: every action False.\<close>

definition no_action :: Actions where
  "no_action = \<lparr>up = False, down = False, left = False, right = False, shoot = False,
                 ch_up = False, ch_down = False, ch_left = False, ch_right = False,
                 ch_mouse = False\<rparr>"

definition MAX_SPEED :: pyfloat where
  "MAX_SPEED = Fin 1500"

definition SHOOTING_SPEED :: pyfloat where
  "SHOOTING_SPEED = Fin 3000"

definition new_player :: "int \<times> int \<Rightarrow> position_arg option \<Rightarrow> Player" where
  "new_player sz pos =
     \<lparr>position = (case pos of None \<Rightarrow> (Fin 0, Fin 0) | Some l \<Rightarrow> contents l),
      position_id = (case pos of None \<Rightarrow> None | Some l \<Rightarrow> identity l),
      velocity = (Fin 0, Fin 0),
      acceleration = (Fin 0, Fin 0),
      crosshair = PyList (Fin 200) (Fin 200),
      bullet = new_bullet,
      score = 0,
      img_size = sz\<rparr>"

definition get_rect :: "(pyfloat \<Rightarrow> error + int) \<Rightarrow> Player \<Rightarrow> error + Rect" where
  "get_rect conv p = rect_centered conv (img_size p) (position p)"

text \<open>\<^verbatim>\<open>(v[0] ** 2 + v[1] ** 2) ** 0.5\<close>, written three times in \<^verbatim>\<open>Player.update\<close>.\<close>

definition magnitude :: "vec \<Rightarrow> pyfloat" where
  "magnitude v = py_sqrt (py_sq (fst v) + py_sq (snd v))"

text \<open>True counts as 1 and False as 0 when Python subtracts booleans.\<close>

definition flag_diff :: "bool \<Rightarrow> bool \<Rightarrow> pyfloat" where
  "flag_diff a b = Fin (of_bool a - of_bool b)"

subsection \<open>The blocks of \<^verbatim>\<open>Player.update\<close>, in the order of the source\<close>

definition update_position :: "pyfloat \<Rightarrow> Player \<Rightarrow> Player" where
  "update_position delta_t self =
     self\<lparr>position :=
       (fst (position self)
          + (fst (velocity self) * delta_t + fst (acceleration self) * py_sq delta_t / Fin 2),
        snd (position self)
          + (snd (velocity self) * delta_t + snd (acceleration self) * py_sq delta_t / Fin 2))\<rparr>"

definition update_velocity :: "pyfloat \<Rightarrow> Player \<Rightarrow> Player" where
  "update_velocity delta_t self =
     self\<lparr>velocity :=
       (fst (velocity self) + fst (acceleration self) * delta_t,
        snd (velocity self) + snd (acceleration self) * delta_t)\<rparr>"

definition thrust_acceleration :: "Actions \<Rightarrow> vec" where
  "thrust_acceleration actions =
     (let alpha = Fin 20000;
          thrust = (flag_diff (right actions) (left actions),
                    flag_diff (down actions) (up actions));
          thrust_mag = magnitude thrust
      in if thrust_mag > Fin 0
         then (alpha * fst thrust / thrust_mag, alpha * snd thrust / thrust_mag)
         else (Fin 0, Fin 0))"

definition update_acceleration :: "Actions \<Rightarrow> Player \<Rightarrow> Player" where
  "update_acceleration actions self = self\<lparr>acceleration := thrust_acceleration actions\<rparr>"

text \<open>
  \<open>speed\<close> is computed once, before the limit; the threshold and the friction test and
  divide by that same value.
\<close>

definition limit_speed :: "pyfloat \<Rightarrow> Player \<Rightarrow> Player" where
  "limit_speed speed self =
     (if speed > MAX_SPEED
      then (let limiting_factor = MAX_SPEED / speed
            in self\<lparr>velocity := (fst (velocity self) * limiting_factor,
                                   snd (velocity self) * limiting_factor)\<rparr>)
      else self)"

definition threshold_velocity :: "pyfloat \<Rightarrow> Player \<Rightarrow> Player" where
  "threshold_velocity speed self =
     (if speed < Fin 30 then self\<lparr>velocity := (Fin 0, Fin 0)\<rparr> else self)"

definition add_friction :: "pyfloat \<Rightarrow> Player \<Rightarrow> Player" where
  "add_friction speed self =
     (let k = Fin 3000
      in if speed > Fin (1 / 10)
         then self\<lparr>acceleration :=
                (fst (acceleration self) - fst (velocity self) / speed * k,
                 snd (acceleration self) - snd (velocity self) / speed * k)\<rparr>
         else self)"

definition update_crosshair :: "Actions \<Rightarrow> int \<times> int \<Rightarrow> Player \<Rightarrow> error + Player" where
  "update_crosshair actions mouse self =
     (if ch_mouse actions
      then Inr (self\<lparr>crosshair := PyTuple (Fin (of_int (fst mouse))) (Fin (of_int (snd mouse)))\<rparr>)
      else (let beta = Fin 30
            in case set_item0 (crosshair self)
                      (item0 (crosshair self)
                         + beta * flag_diff (ch_right actions) (ch_left actions)) of
                 Inl e \<Rightarrow> Inl e
               | Inr c \<Rightarrow>
                   (case set_item1 c
                           (item1 c + beta * flag_diff (ch_down actions) (ch_up actions)) of
                      Inl e \<Rightarrow> Inl e
                    | Inr c' \<Rightarrow> Inr (self\<lparr>crosshair := c'\<rparr>))))"

definition shoot_bullet :: "Actions \<Rightarrow> Player \<Rightarrow> error + Player" where
  "shoot_bullet actions self =
     (if shoot actions \<and> \<not> was_shot (bullet self)
      then (let bullet_vel = (item0 (crosshair self) - fst (position self),
                              item1 (crosshair self) - snd (position self));
                bullet_speed = magnitude bullet_vel
            in case py_div SHOOTING_SPEED bullet_speed of
                 Inl e \<Rightarrow> Inl e
               | Inr f \<Rightarrow>
                   Inr (self\<lparr>bullet := (bullet self)
                          \<lparr>b_position := position self,
                           b_velocity := (fst bullet_vel * f, snd bullet_vel * f),
                           was_shot := True\<rparr>\<rparr>))
      else Inr self)"

definition update :: "Actions \<Rightarrow> pyfloat \<Rightarrow> int \<times> int \<Rightarrow> Player \<Rightarrow> error + Player" where
  "update actions delta_t mouse self =
     (let self = update_position delta_t self;
          self = update_velocity delta_t self;
          self = update_acceleration actions self;
          speed = magnitude (velocity self);
          self = limit_speed speed self;
          self = threshold_velocity speed self;
          self = add_friction speed self
      in case update_crosshair actions mouse self of
           Inl e \<Rightarrow> Inl e
         | Inr self \<Rightarrow>
             (case shoot_bullet actions self of
                Inl e \<Rightarrow> Inl e
              | Inr self \<Rightarrow> Inr (self\<lparr>bullet := update_bullet delta_t (bullet self)\<rparr>)))"

section \<open>Game\<close>

datatype key = K_LEFT | K_RIGHT | K_DOWN | K_UP | K_w | K_a | K_s | K_d | K_SPACE
  | Mouse_click | K_other int

record Game =
  screen_width :: int
  screen_height :: int
  key_pressed :: "key \<rightharpoonup> bool"
  players :: "Player list"

definition new_game :: "(int \<times> int) option \<Rightarrow> Game" where
  "new_game screen_sz =
     (let sz = (case screen_sz of None \<Rightarrow> (1600, 800) | Some v \<Rightarrow> v)
      in \<lparr>screen_width = fst sz, screen_height = snd sz,
          key_pressed = map_of (map (\<lambda>k. (k, False))
            [K_LEFT, K_RIGHT, K_DOWN, K_UP, K_w, K_a, K_s, K_d, K_SPACE, Mouse_click]),
          players = []\<rparr>)"

text \<open>
  A list object that the caller passes a second time has by then the contents the player
  holding it has given it.
\<close>

fun held_position :: "nat \<Rightarrow> Player list \<Rightarrow> vec option" where
  "held_position k [] = None"
| "held_position k (p # ps) =
     (if position_id p = Some k then Some (position p) else held_position k ps)"

fun as_held :: "Player list \<Rightarrow> position_arg \<Rightarrow> position_arg" where
  "as_held ps (Own v) = Own v"
| "as_held ps (Shared k v) =
     (case held_position k ps of None \<Rightarrow> Shared k v | Some u \<Rightarrow> Shared k u)"

text \<open>
  \<^verbatim>\<open>add_player\<close> builds the player from the image file; \<open>img_sz\<close> stands for the size of
  that image. The function that decides a player's actions is an argument of
  \<open>update_physics\<close> below instead of a field of the player.
\<close>

definition add_player :: "int \<times> int \<Rightarrow> position_arg option \<Rightarrow> Game \<Rightarrow> Game" where
  "add_player img_sz pos g =
     (if length (players g) < 2
      then g\<lparr>players := players g @ [new_player img_sz (map_option (as_held (players g)) pos)]\<rparr>
      else g)"

datatype event = QUIT | KEYDOWN key | KEYUP key | MOUSEBUTTONDOWN int | MOUSEBUTTONUP int
  | Other_event

fun handle_event :: "event \<Rightarrow> Game \<Rightarrow> error + Game" where
  "handle_event QUIT g = Inl SystemExit"
| "handle_event (KEYDOWN k) g =
     Inr (if k \<in> dom (key_pressed g) then g\<lparr>key_pressed := (key_pressed g)(k \<mapsto> True)\<rparr> else g)"
| "handle_event (KEYUP k) g =
     Inr (if k \<in> dom (key_pressed g) then g\<lparr>key_pressed := (key_pressed g)(k \<mapsto> False)\<rparr> else g)"
| "handle_event (MOUSEBUTTONDOWN b) g =
     Inr (if b = 1 then g\<lparr>key_pressed := (key_pressed g)(Mouse_click \<mapsto> True)\<rparr> else g)"
| "handle_event (MOUSEBUTTONUP b) g =
     Inr (if b = 1 then g\<lparr>key_pressed := (key_pressed g)(Mouse_click \<mapsto> False)\<rparr> else g)"
| "handle_event Other_event g = Inr g"

fun handle_events :: "event list \<Rightarrow> Game \<Rightarrow> error + Game" where
  "handle_events [] g = Inr g"
| "handle_events (ev # evs) g =
     (case handle_event ev g of Inl e \<Rightarrow> Inl e | Inr g' \<Rightarrow> handle_events evs g')"

subsection \<open>The body of the loop over the players in \<^verbatim>\<open>update_physics\<close>\<close>

definition limit_crosshair :: "int \<Rightarrow> int \<Rightarrow> Player \<Rightarrow> error + Player" where
  "limit_crosshair sw sh player =
     (case (if item0 (crosshair player) < Fin 0
            then set_item0 (crosshair player) (Fin 0) else Inr (crosshair player)) of
        Inl e \<Rightarrow> Inl e
      | Inr c1 \<Rightarrow>
     (case (if item0 c1 > Fin (of_int sw) then set_item0 c1 (Fin (of_int sw)) else Inr c1) of
        Inl e \<Rightarrow> Inl e
      | Inr c2 \<Rightarrow>
     (case (if item1 c2 < Fin 0 then set_item1 c2 (Fin 0) else Inr c2) of
        Inl e \<Rightarrow> Inl e
      | Inr c3 \<Rightarrow>
     (case (if item1 c3 > Fin (of_int sh) then set_item1 c3 (Fin (of_int sh)) else Inr c3) of
        Inl e \<Rightarrow> Inl e
      | Inr c4 \<Rightarrow> Inr (player\<lparr>crosshair := c4\<rparr>)))))"

text \<open>The rectangle \<open>r\<close> is taken once; the four tests read it, not the moved player.\<close>

definition bounce_x :: "pyfloat \<Rightarrow> Player \<Rightarrow> Player" where
  "bounce_x a player =
     player\<lparr>position := (a, snd (position player)),
            velocity := (- fst (velocity player) * Fin (8 / 10), snd (velocity player))\<rparr>"

definition bounce_y :: "pyfloat \<Rightarrow> Player \<Rightarrow> Player" where
  "bounce_y b player =
     player\<lparr>position := (fst (position player), b),
            velocity := (fst (velocity player), - snd (velocity player) * Fin (8 / 10))\<rparr>"

definition wall_collision ::
  "(pyfloat \<Rightarrow> error + int) \<Rightarrow> int \<Rightarrow> int \<Rightarrow> Player \<Rightarrow> error + Player" where
  "wall_collision conv sw sh player =
     (case get_rect conv player of
        Inl e \<Rightarrow> Inl e
      | Inr r \<Rightarrow>
          (let player = (if r_left r < 0
                         then bounce_x (Fin (of_int (r_width r) / 2)) player else player);
               player = (if r_top r < 0
                         then bounce_y (Fin (of_int (r_height r) / 2)) player else player);
               player = (if r_right r > sw
                         then bounce_x (Fin (of_int sw - of_int (r_width r) / 2)) player
                         else player);
               player = (if r_bottom r > sh
                         then bounce_y (Fin (of_int sh - of_int (r_height r) / 2)) player
                         else player)
           in Inr player))"

text \<open>
  \<^verbatim>\<open>self.players[1 - i]\<close>: an index from \<open>0\<close> up to the length reads from the front, one
  from \<open>- length\<close> up to \<open>- 1\<close> reads from the back, every other index raises.
\<close>

definition py_index :: "'a list \<Rightarrow> int \<Rightarrow> error + 'a" where
  "py_index xs i =
     (if 0 \<le> i \<and> i < int (length xs) then Inr (xs ! nat i)
      else if i < 0 \<and> - int (length xs) \<le> i then Inr (xs ! nat (int (length xs) + i))
      else Inl IndexError)"

definition outside_screen :: "int \<Rightarrow> int \<Rightarrow> Rect \<Rightarrow> bool" where
  "outside_screen sw sh r \<longleftrightarrow> r_right r < 0 \<or> r_bottom r < 0 \<or> r_left r > sw \<or> r_top r > sh"

text \<open>
  The two bullet checks of player \<open>i\<close>. The bullet's rectangle \<open>r\<close> is taken before the
  first check and used by both; neither check reads \<open>was_shot\<close>.
\<close>

definition check_bullet :: "(pyfloat \<Rightarrow> error + int) \<Rightarrow> nat \<Rightarrow> Game \<Rightarrow> error + Game" where
  "check_bullet conv i g =
     (let player = players g ! i
      in case bullet_get_rect conv (bullet player) of
           Inl e \<Rightarrow> Inl e
         | Inr r \<Rightarrow>
             (let player = (if outside_screen (screen_width g) (screen_height g) r
                            then player\<lparr>bullet := reset_bullet (bullet player)\<rparr> else player);
                  g = g\<lparr>players := (players g)[i := player]\<rparr>
              in case py_index (players g) (1 - int i) of
                   Inl e \<Rightarrow> Inl e
                 | Inr other \<Rightarrow>
                     (case get_rect conv other of
                        Inl e \<Rightarrow> Inl e
                      | Inr ro \<Rightarrow>
                          if colliderect r ro
                          then Inr (g\<lparr>players := (players g)
                                      [i := player\<lparr>score := score player + 1,
                                                   bullet := reset_bullet (bullet player)\<rparr>]\<rparr>)
                          else Inr g)))"

text \<open>
  \<open>decide i g\<close> is what player \<open>i\<close>'s \<^verbatim>\<open>decide_action\<close> answers on the game as it is when
  asked, and \<open>mouse\<close> the pointer position \<^verbatim>\<open>pygame.mouse.get_pos()\<close> reports during this
  tick (it only changes when events are fetched). A player created without a
  \<^verbatim>\<open>decide_action\<close> function answers \<open>no_action\<close>; \<open>idle\<close> is a game of such players.
\<close>

definition idle :: "nat \<Rightarrow> Game \<Rightarrow> Actions" where
  "idle i g = no_action"

text \<open>
  What \<open>player\<close> has written into its position list is there for every player that holds
  the same list.
\<close>

definition holds_list_of :: "Player \<Rightarrow> Player \<Rightarrow> bool" where
  "holds_list_of q p \<longleftrightarrow> position_id q \<noteq> None \<and> position_id q = position_id p"

fun share_position :: "Player \<Rightarrow> Player list \<Rightarrow> Player list" where
  "share_position player [] = []"
| "share_position player (q # qs) =
     (if holds_list_of q player then q\<lparr>position := position player\<rparr> else q)
       # share_position player qs"

definition player_step ::
  "(pyfloat \<Rightarrow> error + int) \<Rightarrow> (nat \<Rightarrow> Game \<Rightarrow> Actions) \<Rightarrow> int \<times> int \<Rightarrow> nat \<Rightarrow> Game
     \<Rightarrow> error + Game" where
  "player_step conv decide mouse i g =
     (let delta_t = Fin (1 / 60); player = players g ! i; actions = decide i g
      in case update actions delta_t mouse player of
           Inl e \<Rightarrow> Inl e
         | Inr player \<Rightarrow>
        (case limit_crosshair (screen_width g) (screen_height g) player of
           Inl e \<Rightarrow> Inl e
         | Inr player \<Rightarrow>
        (case wall_collision conv (screen_width g) (screen_height g) player of
           Inl e \<Rightarrow> Inl e
         | Inr player \<Rightarrow>
             check_bullet conv i
               (g\<lparr>players := share_position player ((players g)[i := player])\<rparr>))))"

fun players_loop ::
  "(pyfloat \<Rightarrow> error + int) \<Rightarrow> (nat \<Rightarrow> Game \<Rightarrow> Actions) \<Rightarrow> int \<times> int \<Rightarrow> nat list \<Rightarrow> Game
     \<Rightarrow> error + Game" where
  "players_loop conv decide mouse [] g = Inr g"
| "players_loop conv decide mouse (i # rest) g =
     (case player_step conv decide mouse i g of
        Inl e \<Rightarrow> Inl e
      | Inr g' \<Rightarrow> players_loop conv decide mouse rest g')"

subsection \<open>Collision between the two players\<close>

definition collision_axes :: "pyfloat \<Rightarrow> pyfloat \<Rightarrow> bool \<times> bool" where
  "collision_axes delta_tx delta_ty =
     (if delta_tx < delta_ty then (True, False)
      else if delta_ty < delta_tx then (False, True)
      else (True, True))"

definition time_since_contact :: "pyfloat \<Rightarrow> pyfloat \<Rightarrow> pyfloat" where
  "time_since_contact delta v = (if v > Fin 0 then delta / v else PInf)"

text \<open>
  How long ago the rectangles of side \<open>l\<close> started to overlap on each axis, from the
  overlap and the relative speed on that axis.
\<close>

definition contact_times :: "pyfloat \<Rightarrow> Player \<Rightarrow> Player \<Rightarrow> pyfloat \<times> pyfloat" where
  "contact_times l player1 player2 =
     (let delta_x = l - \<bar>fst (position player1) - fst (position player2)\<bar>;
          delta_y = l - \<bar>snd (position player1) - snd (position player2)\<bar>;
          v_x = \<bar>fst (velocity player1) - fst (velocity player2)\<bar>;
          v_y = \<bar>snd (velocity player1) - snd (velocity player2)\<bar>
      in (time_since_contact delta_x v_x, time_since_contact delta_y v_y))"

text \<open>
  The roll-back subtracts from the position list of player 1 and then from that of
  player 2; when both hold one list, the second subtraction works on what the first left.
\<close>

definition parse_player_collision ::
  "(pyfloat \<Rightarrow> error + int) \<Rightarrow> Player \<Rightarrow> Player \<Rightarrow> error + Player \<times> Player" where
  "parse_player_collision conv player1 player2 =
     (case get_rect conv player1 of
        Inl e \<Rightarrow> Inl e
      | Inr r1 \<Rightarrow>
     (case get_rect conv player2 of
        Inl e \<Rightarrow> Inl e
      | Inr r2 \<Rightarrow>
          (let l = Fin (of_int (r_width r1))
           in if colliderect r1 r2
              then
                (let (delta_tx, delta_ty) = contact_times l player1 player2;
                     (is_collision_x, is_collision_y) = collision_axes delta_tx delta_ty;
                     delta_t = py_min delta_tx delta_ty;
                     one_list = holds_list_of player2 player1;
                     pos1 = (fst (position player1) - fst (velocity player1) * delta_t,
                             snd (position player1) - snd (velocity player1) * delta_t);
                     before2 = (if one_list then pos1 else position player2);
                     pos2 = (fst before2 - fst (velocity player2) * delta_t,
                             snd before2 - snd (velocity player2) * delta_t);
                     vel1 = (if is_collision_x then fst (velocity player2)
                             else fst (velocity player1),
                             if is_collision_y then snd (velocity player2)
                             else snd (velocity player1));
                     vel2 = (if is_collision_x then fst (velocity player1)
                             else fst (velocity player2),
                             if is_collision_y then snd (velocity player1)
                             else snd (velocity player2))
                 in Inr (player1\<lparr>position := (if one_list then pos2 else pos1),
                                 velocity := vel1\<rparr>,
                         player2\<lparr>position := pos2, velocity := vel2\<rparr>))
              else Inr (player1, player2))))"

definition update_physics ::
  "(pyfloat \<Rightarrow> error + int) \<Rightarrow> (nat \<Rightarrow> Game \<Rightarrow> Actions) \<Rightarrow> int \<times> int \<Rightarrow> Game \<Rightarrow> error + Game" where
  "update_physics conv decide mouse g =
     (case players_loop conv decide mouse [0..<length (players g)] g of
        Inl e \<Rightarrow> Inl e
      | Inr g \<Rightarrow>
          if length (players g) = 2
          then (case parse_player_collision conv (players g ! 0) (players g ! 1) of
                  Inl e \<Rightarrow> Inl e
                | Inr (player1, player2) \<Rightarrow> Inr (g\<lparr>players := [player1, player2]\<rparr>))
          else Inr g)"

text \<open>
  \<^verbatim>\<open>draw_frame\<close> changes nothing in the game; it asks every player, crosshair and bullet
  for its rectangle and reads the scores of players 0 and 1, so it can raise. The image of
  the crosshair is scaled to 70 by 70 pixels.
\<close>

fun draw_players :: "(pyfloat \<Rightarrow> error + int) \<Rightarrow> Player list \<Rightarrow> error + unit" where
  "draw_players conv [] = Inr ()"
| "draw_players conv (p # ps) =
     (case get_rect conv p of
        Inl e \<Rightarrow> Inl e
      | Inr _ \<Rightarrow>
          (case rect_centered conv (70, 70) (item0 (crosshair p), item1 (crosshair p)) of
             Inl e \<Rightarrow> Inl e
           | Inr _ \<Rightarrow>
               (case bullet_get_rect conv (bullet p) of
                  Inl e \<Rightarrow> Inl e
                | Inr _ \<Rightarrow> draw_players conv ps)))"

definition draw_frame :: "(pyfloat \<Rightarrow> error + int) \<Rightarrow> Game \<Rightarrow> error + Game" where
  "draw_frame conv g =
     (case draw_players conv (players g) of
        Inl e \<Rightarrow> Inl e
      | Inr _ \<Rightarrow>
          (case py_index (players g) 0 of
             Inl e \<Rightarrow> Inl e
           | Inr _ \<Rightarrow>
               (case py_index (players g) 1 of
                  Inl e \<Rightarrow> Inl e
                | Inr _ \<Rightarrow> Inr g)))"

text \<open>
  The game the script at the end of the file sets up before its loop: the default screen,
  a first player at [100, 100] and a second one at the bottom right corner, each with a
  list of its own.
\<close>

definition shipped_game :: "int \<times> int \<Rightarrow> Game" where
  "shipped_game img_sz =
     (let myGame = new_game None;
          myGame = add_player img_sz (Some (Own (Fin 100, Fin 100))) myGame
      in add_player img_sz
           (Some (Own (Fin (of_int (screen_width myGame)), Fin (of_int (screen_height myGame)))))
           myGame)"

subsection \<open>States a game can reach\<close>

text \<open>
  A game is created empty and from then on only changed by its four methods, each with
  any arguments and inputs, as long as the method returns.
\<close>

inductive reachable :: "(pyfloat \<Rightarrow> error + int) \<Rightarrow> Game \<Rightarrow> bool"
  for conv :: "pyfloat \<Rightarrow> error + int" where
  created: "reachable conv (new_game screen_sz)"
| added: "reachable conv g \<Longrightarrow> reachable conv (add_player img_sz pos g)"
| handled: "reachable conv g \<Longrightarrow> handle_events evs g = Inr g' \<Longrightarrow> reachable conv g'"
| stepped: "reachable conv g \<Longrightarrow> update_physics conv decide mouse g = Inr g'
            \<Longrightarrow> reachable conv g'"
| drawn: "reachable conv g \<Longrightarrow> draw_frame conv g = Inr g' \<Longrightarrow> reachable conv g'"

section \<open>Properties\<close>

subsection \<open>Arithmetic on finite values\<close>

lemma Fin_minus [simp]: "Fin a - Fin b = Fin (a - b)"
  by (simp add: minus_pyfloat_def)

lemma magnitude_Fin: "magnitude (Fin a, Fin b) = Fin (sqrt (a\<^sup>2 + b\<^sup>2))"
  by (simp add: magnitude_def)

lemma magnitude_x_axis: "magnitude (Fin a, Fin 0) = Fin \<bar>a\<bar>"
  by (simp add: magnitude_def)

lemma thrust_no_action: "thrust_acceleration no_action = (Fin 0, Fin 0)"
  by (simp add: thrust_acceleration_def no_action_def flag_diff_def magnitude_def Let_def)

subsection \<open>What \<open>update\<close> returns\<close>

lemma update_crosshair_keeps:
  assumes "update_crosshair a m p = Inr p'"
  shows "position p' = position p" "velocity p' = velocity p" "acceleration p' = acceleration p"
    "bullet p' = bullet p" "score p' = score p" "img_size p' = img_size p"
  using assms by (auto simp: update_crosshair_def Let_def split: if_splits sum.splits)

lemma shoot_bullet_keeps:
  assumes "shoot_bullet a p = Inr p'"
  shows "position p' = position p" "velocity p' = velocity p" "acceleration p' = acceleration p"
    "crosshair p' = crosshair p" "score p' = score p" "img_size p' = img_size p"
  using assms by (auto simp: shoot_bullet_def Let_def split: if_splits sum.splits)

text \<open>The velocity after the limit and the threshold, and the acceleration after friction.\<close>

lemma update_motion:
  assumes "update a dt m p = Inr p'"
  defines "w \<equiv> (fst (velocity p) + fst (acceleration p) * dt,
                snd (velocity p) + snd (acceleration p) * dt)"
  defines "s \<equiv> magnitude w"
  defines "v \<equiv> (if s < Fin 30 then (Fin 0, Fin 0)
                else if s > MAX_SPEED then (fst w * (MAX_SPEED / s), snd w * (MAX_SPEED / s))
                else w)"
  shows "position p' =
           (fst (position p) + (fst (velocity p) * dt + fst (acceleration p) * py_sq dt / Fin 2),
            snd (position p) + (snd (velocity p) * dt + snd (acceleration p) * py_sq dt / Fin 2))"
    and "velocity p' = v"
    and "acceleration p' =
           (if s > Fin (1 / 10)
            then (fst (thrust_acceleration a) - fst v / s * Fin 3000,
                  snd (thrust_acceleration a) - snd v / s * Fin 3000)
            else thrust_acceleration a)"
proof -
  define q where "q = update_acceleration a (update_velocity dt (update_position dt p))"
  have vq: "velocity q = w"
    by (simp add: q_def w_def update_acceleration_def update_velocity_def update_position_def)
  let ?r = "add_friction s (threshold_velocity s (limit_speed s q))"
  from assms(1) obtain r1 r2 where c: "update_crosshair a m ?r = Inr r1"
    and f: "shoot_bullet a r1 = Inr r2"
    and p': "p' = r2\<lparr>bullet := update_bullet dt (bullet r2)\<rparr>"
    unfolding update_def Let_def q_def[symmetric] vq s_def[symmetric]
    by (auto split: sum.splits)
  have same: "position p' = position ?r" "velocity p' = velocity ?r"
    "acceleration p' = acceleration ?r"
    using update_crosshair_keeps[OF c] shoot_bullet_keeps[OF f] p' by simp_all
  have "position ?r = position (update_position dt p)"
    by (simp add: add_friction_def threshold_velocity_def limit_speed_def Let_def q_def
        update_acceleration_def update_velocity_def)
  then show "position p' =
           (fst (position p) + (fst (velocity p) * dt + fst (acceleration p) * py_sq dt / Fin 2),
            snd (position p) + (snd (velocity p) * dt + snd (acceleration p) * py_sq dt / Fin 2))"
    using same(1) by (simp add: update_position_def)
  have nb: "\<not> (s < Fin 30 \<and> s > MAX_SPEED)"
    by (cases s) (simp_all add: MAX_SPEED_def)
  have vt: "velocity (threshold_velocity s (limit_speed s q)) = v"
    using nb vq by (auto simp add: threshold_velocity_def limit_speed_def Let_def v_def)
  then have vr: "velocity ?r = v"
    by (simp add: add_friction_def Let_def)
  then show "velocity p' = v" using same(2) by simp
  have "acceleration (threshold_velocity s (limit_speed s q)) = thrust_acceleration a"
    by (simp add: threshold_velocity_def limit_speed_def Let_def q_def update_acceleration_def)
  with vt show "acceleration p' =
           (if s > Fin (1 / 10)
            then (fst (thrust_acceleration a) - fst v / s * Fin 3000,
                  snd (thrust_acceleration a) - snd v / s * Fin 3000)
            else thrust_acceleration a)"
    using same(3) by (simp add: add_friction_def Let_def)
qed


lemmas update_defs = update_def update_position_def update_velocity_def update_acceleration_def
  limit_speed_def threshold_velocity_def add_friction_def update_crosshair_def shoot_bullet_def
  update_bullet_def py_div_def thrust_acceleration_def flag_diff_def MAX_SPEED_def
  SHOOTING_SPEED_def new_player_def new_bullet_def no_action_def Let_def

subsection \<open>Integration with the acceleration of the previous tick\<close>

text \<open>
  Claim C7. Whenever \<open>update\<close> returns, the new position is the old one advanced by the old
  velocity and the acceleration the player held before the call, the velocity is the old
  one plus that acceleration times \<open>delta_t\<close> (then limited and thresholded), and neither
  depends on this tick's actions: two calls from the same state with any two action
  vectors and pointer positions agree on position and velocity. The actions only decide
  the thrust stored as the new acceleration, less the friction term.
\<close>

theorem update_integrates_with_previous_acceleration:
  assumes "update actions delta_t mouse self = Inr self'"
  shows "let w = (fst (velocity self) + fst (acceleration self) * delta_t,
                  snd (velocity self) + snd (acceleration self) * delta_t);
             s = magnitude w;
             v = (if s < Fin 30 then (Fin 0, Fin 0)
                  else if s > MAX_SPEED then (fst w * (MAX_SPEED / s), snd w * (MAX_SPEED / s))
                  else w)
         in position self' =
              (fst (position self)
                 + (fst (velocity self) * delta_t + fst (acceleration self) * py_sq delta_t / Fin 2),
               snd (position self)
                 + (snd (velocity self) * delta_t + snd (acceleration self) * py_sq delta_t / Fin 2))
          \<and> velocity self' = v
          \<and> acceleration self' =
              (if s > Fin (1 / 10)
               then (fst (thrust_acceleration actions) - fst v / s * Fin 3000,
                     snd (thrust_acceleration actions) - snd v / s * Fin 3000)
               else thrust_acceleration actions)
          \<and> (\<forall>actions2 mouse2 self2. update actions2 delta_t mouse2 self = Inr self2 \<longrightarrow>
                 position self2 = position self' \<and> velocity self2 = velocity self')"
proof -
  note m = update_motion[OF assms]
  have "position self2 = position self' \<and> velocity self2 = velocity self'"
    if "update actions2 delta_t mouse2 self = Inr self2" for actions2 mouse2 self2
    using update_motion(1,2)[OF that] m(1,2) by simp
  then show ?thesis
    unfolding Let_def using m by blast
qed

theorem update_integrates_with_previous_acceleration_witness:
  "update (no_action\<lparr>right := True\<rparr>) (Fin (1 / 60)) (0, 0)
     ((new_player (50, 50) (Some (Own (Fin 100, Fin 100))))
        \<lparr>velocity := (Fin 600, Fin 0), acceleration := (Fin 3600, Fin 0)\<rparr>)
   = Inr ((new_player (50, 50) (Some (Own (Fin 100, Fin 100))))
        \<lparr>position := (Fin (221 / 2), Fin 100), velocity := (Fin 660, Fin 0),
         acceleration := (Fin 17000, Fin 0)\<rparr>)
   \<and> position ((new_player (50, 50) (Some (Own (Fin 100, Fin 100))))
        \<lparr>position := (Fin (221 / 2), Fin 100), velocity := (Fin 660, Fin 0),
         acceleration := (Fin 17000, Fin 0)\<rparr>)
     = (Fin 100 + (Fin 600 * Fin (1 / 60) + Fin 3600 * py_sq (Fin (1 / 60)) / Fin 2),
        Fin 100 + (Fin 0 * Fin (1 / 60) + Fin 0 * py_sq (Fin (1 / 60)) / Fin 2))"
proof -
  have h: "update (no_action\<lparr>right := True\<rparr>) (Fin (1 / 60)) (0, 0)
     ((new_player (50, 50) (Some (Own (Fin 100, Fin 100))))
        \<lparr>velocity := (Fin 600, Fin 0), acceleration := (Fin 3600, Fin 0)\<rparr>)
   = Inr ((new_player (50, 50) (Some (Own (Fin 100, Fin 100))))
        \<lparr>position := (Fin (221 / 2), Fin 100), velocity := (Fin 660, Fin 0),
         acceleration := (Fin 17000, Fin 0)\<rparr>)"
    by (simp add: update_defs magnitude_x_axis power2_eq_square)
  show ?thesis
    using h update_integrates_with_previous_acceleration[OF h]
    by (simp add: new_player_def Let_def)
qed

subsection \<open>Speed limit and friction\<close>

lemma scaled_magnitude:
  fixes a b c :: real
  assumes "0 \<le> c"
  shows "sqrt ((a * c)\<^sup>2 + (b * c)\<^sup>2) = c * sqrt (a\<^sup>2 + b\<^sup>2)"
proof -
  have "(a * c)\<^sup>2 + (b * c)\<^sup>2 = c\<^sup>2 * (a\<^sup>2 + b\<^sup>2)"
    by (simp add: algebra_simps)
  then show ?thesis
    using assms by (simp add: real_sqrt_mult)
qed

text \<open>
  Claim C6. For a player with finite velocity and acceleration for which \<open>update\<close> returns,
  let \<open>(wx, wy)\<close> be the velocity after integration and \<open>s\<close> its length. If \<open>s\<close> exceeds
  1500, the velocity after the update is \<open>(wx, wy)\<close> times the positive factor \<open>1500 / s\<close>
  (same direction) and its length is exactly \<open>MAX_SPEED\<close>; if \<open>s\<close> lies between 30 and
  1500, the velocity after the update is \<open>(wx, wy)\<close> itself. Arithmetic is exact here, so
  the claim's floating tolerance is zero.
\<close>

theorem speed_is_clamped_to_max_speed:
  assumes "velocity self = (Fin vx, Fin vy)"
      and "acceleration self = (Fin ax, Fin ay)"
      and "update actions (Fin dt) mouse self = Inr self'"
  shows "let wx = vx + ax * dt; wy = vy + ay * dt; s = sqrt (wx\<^sup>2 + wy\<^sup>2)
         in (1500 < s \<longrightarrow>
               velocity self' = (Fin (wx * (1500 / s)), Fin (wy * (1500 / s)))
               \<and> 0 < 1500 / s
               \<and> magnitude (velocity self') = MAX_SPEED)
          \<and> (30 \<le> s \<and> s \<le> 1500 \<longrightarrow> velocity self' = (Fin wx, Fin wy))"
proof -
  define wx where "wx = vx + ax * dt"
  define wy where "wy = vy + ay * dt"
  define s where "s = sqrt (wx\<^sup>2 + wy\<^sup>2)"
  have w: "(fst (velocity self) + fst (acceleration self) * Fin dt,
            snd (velocity self) + snd (acceleration self) * Fin dt) = (Fin wx, Fin wy)"
    using assms(1,2) by (simp add: wx_def wy_def)
  have v: "velocity self' =
      (if Fin s < Fin 30 then (Fin 0, Fin 0)
       else if Fin s > MAX_SPEED then (Fin wx * (MAX_SPEED / Fin s), Fin wy * (MAX_SPEED / Fin s))
       else (Fin wx, Fin wy))"
    using update_motion(2)[OF assms(3)] unfolding w by (simp add: magnitude_Fin s_def)
  have big: "velocity self' = (Fin (wx * (1500 / s)), Fin (wy * (1500 / s)))
      \<and> 0 < 1500 / s \<and> magnitude (velocity self') = MAX_SPEED" if "1500 < s"
  proof -
    have eq: "velocity self' = (Fin (wx * (1500 / s)), Fin (wy * (1500 / s)))"
      using v that by (simp add: MAX_SPEED_def)
    have "sqrt ((wx * (1500 / s))\<^sup>2 + (wy * (1500 / s))\<^sup>2) = (1500 / s) * s"
      unfolding s_def using that by (intro scaled_magnitude) (simp add: s_def)
    also have "\<dots> = 1500" using that by simp
    finally show ?thesis
      using eq that by (simp add: magnitude_Fin MAX_SPEED_def)
  qed
  have mid: "velocity self' = (Fin wx, Fin wy)" if "30 \<le> s" "s \<le> 1500"
    using v that by (simp add: MAX_SPEED_def)
  show ?thesis
    unfolding Let_def wx_def[symmetric] wy_def[symmetric] s_def[symmetric] using big mid by blast
qed


lemma sqrt_2560000: "sqrt 2560000 = 1600"
  by (rule real_sqrt_unique) simp_all

lemma sqrt_360000: "sqrt 360000 = 600"
  by (rule real_sqrt_unique) simp_all

theorem speed_is_clamped_to_max_speed_witness:
  "update no_action (Fin (1 / 60)) (0, 0)
     ((new_player (50, 50) (Some (Own (Fin 100, Fin 100))))\<lparr>velocity := (Fin 1600, Fin 0)\<rparr>)
   = Inr ((new_player (50, 50) (Some (Own (Fin 100, Fin 100))))
        \<lparr>position := (Fin (380 / 3), Fin 100), velocity := (Fin 1500, Fin 0),
         acceleration := (Fin (- 5625 / 2), Fin 0)\<rparr>)
   \<and> magnitude (Fin 1500, Fin 0) = MAX_SPEED
   \<and> update no_action (Fin (1 / 60)) (0, 0)
     ((new_player (50, 50) (Some (Own (Fin 100, Fin 100))))\<lparr>velocity := (Fin 600, Fin 0)\<rparr>)
   = Inr ((new_player (50, 50) (Some (Own (Fin 100, Fin 100))))
        \<lparr>position := (Fin 110, Fin 100), velocity := (Fin 600, Fin 0),
         acceleration := (Fin (- 3000), Fin 0)\<rparr>)"
proof -
  let ?p = "new_player (50, 50) (Some (Own (Fin 100, Fin 100)))"
  have h1: "update no_action (Fin (1 / 60)) (0, 0) (?p\<lparr>velocity := (Fin 1600, Fin 0)\<rparr>)
      = Inr (?p\<lparr>position := (Fin (380 / 3), Fin 100), velocity := (Fin 1500, Fin 0),
                 acceleration := (Fin (- 5625 / 2), Fin 0)\<rparr>)"
    by (simp add: update_defs magnitude_x_axis power2_eq_square)
  have h2: "update no_action (Fin (1 / 60)) (0, 0) (?p\<lparr>velocity := (Fin 600, Fin 0)\<rparr>)
      = Inr (?p\<lparr>position := (Fin 110, Fin 100), velocity := (Fin 600, Fin 0),
                 acceleration := (Fin (- 3000), Fin 0)\<rparr>)"
    by (simp add: update_defs magnitude_x_axis power2_eq_square)
  have v1: "velocity (?p\<lparr>velocity := (Fin 1600, Fin 0)\<rparr>) = (Fin 1600, Fin 0)"
    and a1: "acceleration (?p\<lparr>velocity := (Fin 1600, Fin 0)\<rparr>) = (Fin 0, Fin 0)"
    and v2: "velocity (?p\<lparr>velocity := (Fin 600, Fin 0)\<rparr>) = (Fin 600, Fin 0)"
    and a2: "acceleration (?p\<lparr>velocity := (Fin 600, Fin 0)\<rparr>) = (Fin 0, Fin 0)"
    by (simp_all add: new_player_def)
  show ?thesis
    using h1 h2 speed_is_clamped_to_max_speed[OF v1 a1 h1]
      speed_is_clamped_to_max_speed[OF v2 a2 h2]
    by (simp add: Let_def sqrt_2560000 sqrt_360000)
qed


lemma friction_full_when_not_limited:
  assumes "velocity self = (Fin vx, Fin vy)"
      and "acceleration self = (Fin ax, Fin ay)"
      and "update actions (Fin dt) mouse self = Inr self'"
      and "30 \<le> sqrt ((vx + ax * dt)\<^sup>2 + (vy + ay * dt)\<^sup>2)"
      and "sqrt ((vx + ax * dt)\<^sup>2 + (vy + ay * dt)\<^sup>2) \<le> 1500"
  shows "let wx = vx + ax * dt; wy = vy + ay * dt; s = sqrt (wx\<^sup>2 + wy\<^sup>2)
         in acceleration self' =
              (fst (thrust_acceleration actions) - Fin (wx / s * 3000),
               snd (thrust_acceleration actions) - Fin (wy / s * 3000))
          \<and> sqrt ((wx / s * 3000)\<^sup>2 + (wy / s * 3000)\<^sup>2) = 3000"
proof -
  define wx where "wx = vx + ax * dt"
  define wy where "wy = vy + ay * dt"
  define s where "s = sqrt (wx\<^sup>2 + wy\<^sup>2)"
  have s: "30 \<le> s" "s \<le> 1500"
    using assms(4,5) by (simp_all add: s_def wx_def wy_def)
  have w: "(fst (velocity self) + fst (acceleration self) * Fin dt,
            snd (velocity self) + snd (acceleration self) * Fin dt) = (Fin wx, Fin wy)"
    using assms(1,2) by (simp add: wx_def wy_def)
  have m: "magnitude (Fin wx, Fin wy) = Fin s"
    by (simp add: magnitude_Fin s_def)
  have acc: "acceleration self' =
      (fst (thrust_acceleration actions) - Fin (wx / s * 3000),
       snd (thrust_acceleration actions) - Fin (wy / s * 3000))"
    using update_motion(3)[OF assms(3)] s unfolding w m by (simp add: MAX_SPEED_def)
  have "(wx / s * 3000)\<^sup>2 + (wy / s * 3000)\<^sup>2 = (wx * (3000 / s))\<^sup>2 + (wy * (3000 / s))\<^sup>2"
    by simp
  moreover have "sqrt ((wx * (3000 / s))\<^sup>2 + (wy * (3000 / s))\<^sup>2) = (3000 / s) * s"
    unfolding s_def using s by (intro scaled_magnitude) (simp add: s_def)
  ultimately have "sqrt ((wx / s * 3000)\<^sup>2 + (wy / s * 3000)\<^sup>2) = 3000"
    using s by simp
  with acc show ?thesis
    unfolding Let_def wx_def[symmetric] wy_def[symmetric] s_def[symmetric] by simp
qed

text \<open>
  Claim C4, at a player that moves right at full speed with the thrust key released in
  this tick: the stored acceleration is 17000 (thrust 20000 less friction 3000), so the
  integrated speed is 5350/3 and the limit scales the velocity back to 1500. The friction
  divides that limited velocity by the speed computed before the limit, and takes
  1500 / (5350/3) * 3000 = 270000/107, about 2523, from the acceleration instead of 3000.
\<close>

theorem friction_after_speed_limit_is_below_drag_magnitude:
  "update no_action (Fin (1 / 60)) (0, 0)
     ((new_player (50, 50) (Some (Own (Fin 100, Fin 100))))
        \<lparr>velocity := (Fin 1500, Fin 0), acceleration := (Fin 17000, Fin 0)\<rparr>)
   = Inr ((new_player (50, 50) (Some (Own (Fin 100, Fin 100))))
        \<lparr>position := (Fin (4585 / 36), Fin 100), velocity := (Fin 1500, Fin 0),
         acceleration := (Fin (- (270000 / 107)), Fin 0)\<rparr>)"
  by (simp add: update_defs magnitude_x_axis power2_eq_square)

subsection \<open>Shooting\<close>

lemma shoot_bullet_raises_iff:
  "shoot_bullet actions self = Inl e \<longleftrightarrow>
     e = ZeroDivisionError \<and> shoot actions \<and> \<not> was_shot (bullet self)
     \<and> magnitude (item0 (crosshair self) - fst (position self),
                   item1 (crosshair self) - snd (position self)) = Fin 0"
  by (auto simp: shoot_bullet_def py_div_def Let_def)

lemma shoot_bullet_at_own_position:
  assumes "shoot actions" "\<not> was_shot (bullet self)" "position self = (Fin a, Fin b)"
      and "item0 (crosshair self) = Fin a" "item1 (crosshair self) = Fin b"
  shows "shoot_bullet actions self = Inl ZeroDivisionError"
  using assms by (simp add: shoot_bullet_raises_iff magnitude_Fin)

text \<open>
  Claim C1, at the first tick of a game whose first player stands at (100, 100) and aims
  with the pointer: the pointer is at (100, 100) and the button is down. The bullet's
  direction has length 0 and \<^verbatim>\<open>SHOOTING_SPEED / bullet_speed\<close> raises ZeroDivisionError;
  nothing in \<^verbatim>\<open>Player.update\<close> tests the length before dividing.
\<close>

theorem update_raises_when_crosshair_is_on_player:
  "update (no_action\<lparr>shoot := True, ch_mouse := True\<rparr>) (Fin (1 / 60)) (100, 100)
     (new_player (50, 50) (Some (Own (Fin 100, Fin 100))))
   = Inl ZeroDivisionError"
  by (simp add: update_defs magnitude_x_axis)

subsection \<open>Rectangles\<close>

lemma int32_id: "- 2147483648 \<le> k \<Longrightarrow> k \<le> 2147483647 \<Longrightarrow> int32 k = k"
  by (simp add: int32_def)

lemma round_half_away_of_int: "round_half_away (of_int k) = k"
proof -
  have "\<lfloor>(of_int k :: real) + 1 / 2\<rfloor> = k" by linarith
  moreover have "\<lceil>(of_int k :: real) - 1 / 2\<rceil> = k" by linarith
  ultimately show ?thesis by (simp add: round_half_away_def)
qed

lemma nearest_int_exact: "exact_on_ints nearest_int"
  unfolding exact_on_ints_def
proof (intro allI impI)
  fix k :: int
  assume "- 2147483648 \<le> k \<and> k \<le> 2147483647"
  then have "- 2147483648 \<le> (of_int k :: real)" "(of_int k :: real) \<le> 2147483647"
    by linarith+
  then show "nearest_int (Fin (of_int k)) = Inr k"
    by (simp add: round_half_away_of_int)
qed

lemma nearest_int_whole:
  "- 2147483648 \<le> k \<Longrightarrow> k \<le> 2147483647 \<Longrightarrow> nearest_int (Fin (of_int k)) = Inr k"
  using nearest_int_exact by (simp add: exact_on_ints_def)

subsection \<open>Collision between the players\<close>

text \<open>
  Claim C8. When the rectangles of the two players collide and the resolution returns, on
  every axis that \<open>collision_axes\<close> flags the two players leave with each other's velocity
  component, on an axis it does not flag both keep theirs, and at least one axis is
  flagged.
\<close>

theorem collision_exchanges_velocities_on_collision_axes:
  assumes "parse_player_collision conv player1 player2 = Inr (p1, p2)"
      and "get_rect conv player1 = Inr r1" and "get_rect conv player2 = Inr r2"
      and "colliderect r1 r2"
  shows "let (delta_tx, delta_ty) = contact_times (Fin (of_int (r_width r1))) player1 player2;
             (is_collision_x, is_collision_y) = collision_axes delta_tx delta_ty
         in (is_collision_x \<longrightarrow> fst (velocity p1) = fst (velocity player2)
                               \<and> fst (velocity p2) = fst (velocity player1))
          \<and> (\<not> is_collision_x \<longrightarrow> fst (velocity p1) = fst (velocity player1)
                               \<and> fst (velocity p2) = fst (velocity player2))
          \<and> (is_collision_y \<longrightarrow> snd (velocity p1) = snd (velocity player2)
                               \<and> snd (velocity p2) = snd (velocity player1))
          \<and> (\<not> is_collision_y \<longrightarrow> snd (velocity p1) = snd (velocity player1)
                               \<and> snd (velocity p2) = snd (velocity player2))
          \<and> (is_collision_x \<or> is_collision_y)"
  using assms
  by (auto simp: parse_player_collision_def Let_def collision_axes_def split: prod.splits if_splits)

lemma no_collision_no_change:
  assumes "get_rect conv player1 = Inr r1" and "get_rect conv player2 = Inr r2"
      and "\<not> colliderect r1 r2"
  shows "parse_player_collision conv player1 player2 = Inr (player1, player2)"
  using assms by (simp add: parse_player_collision_def)

lemmas rect_defs = get_rect_def bullet_get_rect_def rect_centered_def colliderect_def
  r_right_def r_bottom_def int32_def round_half_away_def

lemmas collision_defs = parse_player_collision_def contact_times_def time_since_contact_def
  collision_axes_def py_min_def holds_list_of_def rect_defs new_player_def new_bullet_def Let_def

theorem collision_exchanges_velocities_on_collision_axes_witness:
  "parse_player_collision nearest_int
     ((new_player (50, 50) (Some (Own (Fin 100, Fin 100))))\<lparr>velocity := (Fin 100, Fin 0)\<rparr>)
     ((new_player (50, 50) (Some (Own (Fin 100, Fin 100))))\<lparr>velocity := (Fin (- 100), Fin 0)\<rparr>)
   = Inr ((new_player (50, 50) (Some (Own (Fin 100, Fin 100))))
            \<lparr>position := (Fin 75, Fin 100), velocity := (Fin (- 100), Fin 0)\<rparr>,
          (new_player (50, 50) (Some (Own (Fin 100, Fin 100))))
            \<lparr>position := (Fin 125, Fin 100), velocity := (Fin 100, Fin 0)\<rparr>)
   \<and> collision_axes (Fin (1 / 4)) PInf = (True, False)"
proof -
  let ?a = "(new_player (50, 50) (Some (Own (Fin 100, Fin 100))))\<lparr>velocity := (Fin 100, Fin 0)\<rparr>"
  let ?b = "(new_player (50, 50) (Some (Own (Fin 100, Fin 100))))\<lparr>velocity := (Fin (- 100), Fin 0)\<rparr>"
  let ?r = "\<lparr>r_left = 75, r_top = 75, r_width = 50, r_height = 50\<rparr>"
  have h: "parse_player_collision nearest_int ?a ?b
     = Inr ((new_player (50, 50) (Some (Own (Fin 100, Fin 100))))
            \<lparr>position := (Fin 75, Fin 100), velocity := (Fin (- 100), Fin 0)\<rparr>,
          (new_player (50, 50) (Some (Own (Fin 100, Fin 100))))
            \<lparr>position := (Fin 125, Fin 100), velocity := (Fin 100, Fin 0)\<rparr>)"
    by (simp add: collision_defs)
  have ra: "get_rect nearest_int ?a = Inr ?r" and rb: "get_rect nearest_int ?b = Inr ?r"
    by (simp_all add: collision_defs)
  have c: "colliderect ?r ?r"
    by (simp add: collision_defs)
  show ?thesis
    using h collision_exchanges_velocities_on_collision_axes[OF h ra rb c]
    by (simp add: collision_defs)
qed

lemma rollback_by_infinite_time:
  "Fin a - Fin v * PInf = (if v = 0 then NaN else if 0 < v then NInf else PInf)"
  by (simp add: minus_pyfloat_def)

lemma equal_velocities_collision_loses_positions:
  assumes "position player1 = (Fin x1, Fin y1)" and "position player2 = (Fin x2, Fin y2)"
      and "velocity player1 = (Fin vx, Fin vy)" and "velocity player2 = (Fin vx, Fin vy)"
      and "get_rect conv player1 = Inr r1" and "get_rect conv player2 = Inr r2"
      and "colliderect r1 r2"
  shows "parse_player_collision conv player1 player2 =
           Inr (player1\<lparr>position := (if vx = 0 then NaN else if 0 < vx then NInf else PInf,
                                     if vy = 0 then NaN else if 0 < vy then NInf else PInf),
                        velocity := (Fin vx, Fin vy)\<rparr>,
                player2\<lparr>position := (if vx = 0 then NaN else if 0 < vx then NInf else PInf,
                                     if vy = 0 then NaN else if 0 < vy then NInf else PInf),
                        velocity := (Fin vx, Fin vy)\<rparr>)"
  using assms
  by (simp add: parse_player_collision_def contact_times_def time_since_contact_def
      collision_axes_def py_min_def Let_def minus_pyfloat_def)

text \<open>
  Claim C2, at two players at rest whose rectangles overlap: nothing is divided by zero,
  both times are \<^verbatim>\<open>float('inf')\<close> and so is their minimum, and the roll-back subtracts
  \<^verbatim>\<open>0 * inf\<close> from every coordinate. Both positions become (nan, nan) instead of staying
  where they were.
\<close>

theorem collision_at_rest_destroys_positions:
  "parse_player_collision nearest_int
     (new_player (50, 50) (Some (Own (Fin 100, Fin 100))))
     (new_player (50, 50) (Some (Own (Fin 130, Fin 100))))
   = Inr ((new_player (50, 50) (Some (Own (Fin 100, Fin 100))))\<lparr>position := (NaN, NaN)\<rparr>,
          (new_player (50, 50) (Some (Own (Fin 130, Fin 100))))\<lparr>position := (NaN, NaN)\<rparr>)"
  by (simp add: collision_defs minus_pyfloat_def)

subsection \<open>Walls\<close>

lemma int32_range: "- 2147483648 \<le> int32 k \<and> int32 k \<le> 2147483647"
proof -
  have "0 \<le> (k + 2147483648) mod 4294967296" "(k + 2147483648) mod 4294967296 < 4294967296"
    by simp_all
  then show ?thesis unfolding int32_def by linarith
qed

lemma get_rect_Inr:
  assumes "get_rect conv p = Inr r"
  obtains cx cy where "conv (fst (position p)) = Inr cx" "conv (snd (position p)) = Inr cy"
    "r = \<lparr>r_left = int32 (cx - fst (img_size p) div 2), r_top = int32 (cy - snd (img_size p) div 2),
          r_width = fst (img_size p), r_height = snd (img_size p)\<rparr>"
  using assms by (auto simp: get_rect_def rect_centered_def split: sum.splits)

text \<open>A rectangle no wider than the screen cannot cross both walls of an axis.\<close>

lemma not_both_walls:
  assumes "0 \<le> w" and "w \<le> sw" and "sw \<le> 2147483647"
  shows "\<not> (int32 l < 0 \<and> int32 (int32 l + w) > sw)"
proof
  assume a: "int32 l < 0 \<and> int32 (int32 l + w) > sw"
  have "- 2147483648 \<le> int32 l" using int32_range by simp
  then have "int32 (int32 l + w) = int32 l + w"
    using a assms by (intro int32_id) linarith+
  then show False using a assms by linarith
qed

text \<open>
  Claim C5 fails as stated for a player whose image is larger than the screen: in a 10 by
  10 arena a 50 by 50 player crosses all four walls at once. Both tests of an axis fire:
  the position ends at \<open>10 - 25 = -15\<close>, the rectangle still starts left of the screen,
  and the velocity component is reversed twice, ending at 0.64 times its value with the
  sign it had.
\<close>

theorem wall_containment_counterexample:
  "wall_collision nearest_int 10 10
     ((new_player (50, 50) (Some (Own (Fin 5, Fin 5))))\<lparr>velocity := (Fin 100, Fin 0)\<rparr>)
   = Inr ((new_player (50, 50) (Some (Own (Fin 5, Fin 5))))
            \<lparr>position := (Fin (- 15), Fin (- 15)), velocity := (Fin 64, Fin 0)\<rparr>)
   \<and> get_rect nearest_int ((new_player (50, 50) (Some (Own (Fin 5, Fin 5))))
            \<lparr>position := (Fin (- 15), Fin (- 15)), velocity := (Fin 64, Fin 0)\<rparr>)
     = Inr \<lparr>r_left = - 40, r_top = - 40, r_width = 50, r_height = 50\<rparr>"
  by (simp add: wall_collision_def rect_defs new_player_def bounce_x_def bounce_y_def Let_def)

text \<open>
  With an image of odd size the centre that the pass assigns lies on a half pixel, and
  where the rectangle ends depends on the conversion. Rounding to nearest puts a 51 by 51
  player that hit the right wall of a 1600 by 800 arena at 1550 to 1601, one pixel past
  the wall.
\<close>

lemma odd_image_ends_past_the_right_wall:
  "wall_collision nearest_int 1600 800
     ((new_player (51, 51) (Some (Own (Fin 1590, Fin 400))))\<lparr>velocity := (Fin 100, Fin 0)\<rparr>)
   = Inr ((new_player (51, 51) (Some (Own (Fin 1590, Fin 400))))
            \<lparr>position := (Fin (3149 / 2), Fin 400), velocity := (Fin (- 80), Fin 0)\<rparr>)
   \<and> get_rect nearest_int ((new_player (51, 51) (Some (Own (Fin 1590, Fin 400))))
            \<lparr>position := (Fin (3149 / 2), Fin 400), velocity := (Fin (- 80), Fin 0)\<rparr>)
     = Inr \<lparr>r_left = 1550, r_top = 375, r_width = 51, r_height = 51\<rparr>
   \<and> r_right \<lparr>r_left = 1550, r_top = 375, r_width = 51, r_height = 51\<rparr> = 1601"
  by (simp add: wall_collision_def rect_defs new_player_def bounce_x_def bounce_y_def Let_def)

lemma clamped_axis:
  assumes "exact_on_ints conv" and "even w" and "0 \<le> w" and "w \<le> sw" and "sw \<le> 2147483647"
      and "conv (Fin a) = Inr c"
      and "l = int32 (c - w div 2)"
      and "p = (if l < 0 then of_int w / 2
                else if int32 (l + w) > sw then of_int sw - of_int w / 2 else a)"
  shows "\<exists>c'. conv (Fin p) = Inr c'
            \<and> 0 \<le> int32 (c' - w div 2)
            \<and> int32 (int32 (c' - w div 2) + w) \<le> sw
            \<and> (l < 0 \<longrightarrow> int32 (c' - w div 2) = 0)
            \<and> (int32 (l + w) > sw \<longrightarrow> int32 (int32 (c' - w div 2) + w) = sw)"
proof -
  have nb: "\<not> (l < 0 \<and> int32 (l + w) > sw)"
    unfolding assms(7) using assms(3-5) by (rule not_both_walls)
  have half: "(of_int w :: real) / 2 = of_int (w div 2)"
    using assms(2) by (auto elim!: evenE)
  have w2: "w div 2 + w div 2 = w"
    using assms(2) by (auto elim!: evenE)
  have ex: "conv (Fin (of_int k)) = Inr k" if "- 2147483648 \<le> k" "k \<le> 2147483647" for k
    using assms(1) that by (simp add: exact_on_ints_def)
  consider (left) "l < 0" | (right) "\<not> l < 0" "int32 (l + w) > sw"
    | (none) "\<not> l < 0" "\<not> int32 (l + w) > sw"
    by blast
  then show ?thesis
  proof cases
    case left
    have p: "p = of_int (w div 2)" using left assms(8) half by simp
    have c: "conv (Fin p) = Inr (w div 2)"
      unfolding p using assms(3-5) by (intro ex) linarith+
    have "int32 (w div 2 - w div 2) = 0" by (simp add: int32_def)
    moreover have "int32 (0 + w) = w" using assms(3-5) by (simp add: int32_id)
    ultimately show ?thesis using c left nb assms(4) by auto
  next
    case right
    have p: "p = of_int (sw - w div 2)" using right assms(8) half by simp
    have c: "conv (Fin p) = Inr (sw - w div 2)"
      unfolding p using assms(3-5) by (intro ex) linarith+
    have "sw - w div 2 - w div 2 = sw - w" using w2 by linarith
    then have l': "int32 (sw - w div 2 - w div 2) = sw - w"
      using assms(3-5) by (simp add: int32_id)
    have "int32 (sw - w + w) = sw" using assms(3-5) by (simp add: int32_id)
    with l' c right assms(4) show ?thesis by auto
  next
    case none
    have p: "p = a" using none assms(8) by simp
    show ?thesis
      using none assms(6,7) unfolding p by auto
  qed
qed

text \<open>
  Claim C5, amended. Take an arena at least as wide and as high as the player's image
  (and no wider or higher than 32 bits hold), and a player with finite position and
  velocity whose rectangle \<open>r\<close> the library returns. Then the wall pass returns, and on
  each axis: if \<open>r\<close> crossed the left or top wall the centre is put exactly half the image
  size inside that wall, if it crossed the right or bottom wall exactly half the image
  size inside that one, so that the box of the image size around the new centre lies
  against the wall that was crossed and inside the arena; the velocity component of that
  axis is reversed and scaled by 0.8; an axis whose walls were not crossed keeps its
  coordinate and its velocity component. When the image has even width and height and the
  conversion is exact on whole numbers, the rectangle the library returns after the pass
  lies inside the arena, with its edge on the wall that was crossed.
\<close>

theorem wall_pass_clamps_and_bounces:
  assumes "img_size player = (w, h)"
      and "0 \<le> w" and "w \<le> sw" and "sw \<le> 2147483647"
      and "0 \<le> h" and "h \<le> sh" and "sh \<le> 2147483647"
      and "position player = (Fin a, Fin b)" and "velocity player = (Fin vx, Fin vy)"
      and "get_rect conv player = Inr r"
  shows "\<exists>player' px py.
           wall_collision conv sw sh player = Inr player'
         \<and> position player' = (Fin px, Fin py)
         \<and> px = (if r_left r < 0 then of_int w / 2
                  else if r_right r > sw then of_int sw - of_int w / 2 else a)
         \<and> py = (if r_top r < 0 then of_int h / 2
                  else if r_bottom r > sh then of_int sh - of_int h / 2 else b)
         \<and> (r_left r < 0 \<or> r_right r > sw \<longrightarrow> 0 \<le> px - of_int w / 2 \<and> px + of_int w / 2 \<le> of_int sw)
         \<and> (r_top r < 0 \<or> r_bottom r > sh \<longrightarrow> 0 \<le> py - of_int h / 2 \<and> py + of_int h / 2 \<le> of_int sh)
         \<and> velocity player' =
             (if r_left r < 0 \<or> r_right r > sw then Fin (- vx * (8 / 10)) else Fin vx,
              if r_top r < 0 \<or> r_bottom r > sh then Fin (- vy * (8 / 10)) else Fin vy)
         \<and> (exact_on_ints conv \<and> even w \<and> even h \<longrightarrow>
              (\<exists>r'. get_rect conv player' = Inr r'
                  \<and> 0 \<le> r_left r' \<and> r_right r' \<le> sw \<and> 0 \<le> r_top r' \<and> r_bottom r' \<le> sh
                  \<and> (r_left r < 0 \<longrightarrow> r_left r' = 0) \<and> (r_right r > sw \<longrightarrow> r_right r' = sw)
                  \<and> (r_top r < 0 \<longrightarrow> r_top r' = 0) \<and> (r_bottom r > sh \<longrightarrow> r_bottom r' = sh)))"
proof -
  from assms(10) obtain cx cy where cx: "conv (Fin a) = Inr cx" and cy: "conv (Fin b) = Inr cy"
    and r: "r = \<lparr>r_left = int32 (cx - w div 2), r_top = int32 (cy - h div 2),
                  r_width = w, r_height = h\<rparr>"
    by (rule get_rect_Inr) (simp add: assms(1,8))
  have rl: "r_left r = int32 (cx - w div 2)" "r_right r = int32 (r_left r + w)"
    "r_top r = int32 (cy - h div 2)" "r_bottom r = int32 (r_top r + h)"
    by (simp_all add: r r_right_def r_bottom_def)
  have nx: "\<not> (r_left r < 0 \<and> r_right r > sw)"
    unfolding rl(2) unfolding rl(1) using assms(2-4) by (rule not_both_walls)
  have ny: "\<not> (r_top r < 0 \<and> r_bottom r > sh)"
    unfolding rl(4) unfolding rl(3) using assms(5-7) by (rule not_both_walls)
  define px where "px = (if r_left r < 0 then of_int w / 2
                         else if r_right r > sw then of_int sw - of_int w / 2 else a)"
  define py where "py = (if r_top r < 0 then of_int h / 2
                         else if r_bottom r > sh then of_int sh - of_int h / 2 else b)"
  define player' where "player' = player
      \<lparr>position := (Fin px, Fin py),
       velocity := (if r_left r < 0 \<or> r_right r > sw then Fin (- vx * (8 / 10)) else Fin vx,
                    if r_top r < 0 \<or> r_bottom r > sh then Fin (- vy * (8 / 10)) else Fin vy)\<rparr>"
  have rw: "r_width r = w" "r_height r = h"
    by (simp_all add: r)
  have wc: "wall_collision conv sw sh player = Inr player'"
    using nx ny assms(8,9,10) rw
    by (auto simp: wall_collision_def Let_def bounce_x_def bounce_y_def player'_def px_def py_def)
  have pos: "position player' = (Fin px, Fin py)"
    by (simp add: player'_def)
  have vel: "velocity player' =
      (if r_left r < 0 \<or> r_right r > sw then Fin (- vx * (8 / 10)) else Fin vx,
       if r_top r < 0 \<or> r_bottom r > sh then Fin (- vy * (8 / 10)) else Fin vy)"
    by (simp add: player'_def)
  have bx: "r_left r < 0 \<or> r_right r > sw
      \<longrightarrow> 0 \<le> px - of_int w / 2 \<and> px + of_int w / 2 \<le> of_int sw"
    using assms(2,3) nx by (auto simp: px_def)
  have by': "r_top r < 0 \<or> r_bottom r > sh
      \<longrightarrow> 0 \<le> py - of_int h / 2 \<and> py + of_int h / 2 \<le> of_int sh"
    using assms(5,6) ny by (auto simp: py_def)
  have rect: "exact_on_ints conv \<and> even w \<and> even h \<longrightarrow>
      (\<exists>r'. get_rect conv player' = Inr r'
      \<and> 0 \<le> r_left r' \<and> r_right r' \<le> sw \<and> 0 \<le> r_top r' \<and> r_bottom r' \<le> sh
      \<and> (r_left r < 0 \<longrightarrow> r_left r' = 0) \<and> (r_right r > sw \<longrightarrow> r_right r' = sw)
      \<and> (r_top r < 0 \<longrightarrow> r_top r' = 0) \<and> (r_bottom r > sh \<longrightarrow> r_bottom r' = sh))"
  proof
    assume e: "exact_on_ints conv \<and> even w \<and> even h"
    have px': "px = (if r_left r < 0 then of_int w / 2
                     else if int32 (r_left r + w) > sw then of_int sw - of_int w / 2 else a)"
      using rl(2) by (simp add: px_def)
    have py': "py = (if r_top r < 0 then of_int h / 2
                     else if int32 (r_top r + h) > sh then of_int sh - of_int h / 2 else b)"
      using rl(4) by (simp add: py_def)
    from e have e1: "exact_on_ints conv" and e2: "even w" and e3: "even h" by simp_all
    from clamped_axis[OF e1 e2 assms(2-4) cx rl(1) px'] obtain cx' where
      x: "conv (Fin px) = Inr cx'" "0 \<le> int32 (cx' - w div 2)"
        "int32 (int32 (cx' - w div 2) + w) \<le> sw"
        "r_left r < 0 \<longrightarrow> int32 (cx' - w div 2) = 0"
        "int32 (r_left r + w) > sw \<longrightarrow> int32 (int32 (cx' - w div 2) + w) = sw"
      by blast
    from clamped_axis[OF e1 e3 assms(5-7) cy rl(3) py'] obtain cy' where
      y: "conv (Fin py) = Inr cy'" "0 \<le> int32 (cy' - h div 2)"
        "int32 (int32 (cy' - h div 2) + h) \<le> sh"
        "r_top r < 0 \<longrightarrow> int32 (cy' - h div 2) = 0"
        "int32 (r_top r + h) > sh \<longrightarrow> int32 (int32 (cy' - h div 2) + h) = sh"
      by blast
    have "get_rect conv player' =
        Inr \<lparr>r_left = int32 (cx' - w div 2), r_top = int32 (cy' - h div 2),
             r_width = w, r_height = h\<rparr>"
      using x(1) y(1) assms(1) by (simp add: get_rect_def rect_centered_def player'_def)
    with x y rl(2,4) show "\<exists>r'. get_rect conv player' = Inr r'
      \<and> 0 \<le> r_left r' \<and> r_right r' \<le> sw \<and> 0 \<le> r_top r' \<and> r_bottom r' \<le> sh
      \<and> (r_left r < 0 \<longrightarrow> r_left r' = 0) \<and> (r_right r > sw \<longrightarrow> r_right r' = sw)
      \<and> (r_top r < 0 \<longrightarrow> r_top r' = 0) \<and> (r_bottom r > sh \<longrightarrow> r_bottom r' = sh)"
      by (simp add: r_right_def r_bottom_def)
  qed
  from wc pos px_def py_def bx by' vel rect show ?thesis
    by blast
qed

theorem wall_pass_clamps_and_bounces_witness:
  "exact_on_ints nearest_int \<and> even (50 :: int)
   \<and> get_rect nearest_int
       ((new_player (50, 50) (Some (Own (Fin (- 5), Fin 900))))
          \<lparr>velocity := (Fin (- 100), Fin 200)\<rparr>)
     = Inr \<lparr>r_left = - 30, r_top = 875, r_width = 50, r_height = 50\<rparr>
   \<and> wall_collision nearest_int 1600 800
       ((new_player (50, 50) (Some (Own (Fin (- 5), Fin 900))))
          \<lparr>velocity := (Fin (- 100), Fin 200)\<rparr>)
     = Inr ((new_player (50, 50) (Some (Own (Fin (- 5), Fin 900))))
              \<lparr>position := (Fin 25, Fin 775), velocity := (Fin 80, Fin (- 160))\<rparr>)
   \<and> get_rect nearest_int ((new_player (50, 50) (Some (Own (Fin (- 5), Fin 900))))
              \<lparr>position := (Fin 25, Fin 775), velocity := (Fin 80, Fin (- 160))\<rparr>)
     = Inr \<lparr>r_left = 0, r_top = 750, r_width = 50, r_height = 50\<rparr>"
proof -
  let ?p = "(new_player (50, 50) (Some (Own (Fin (- 5), Fin 900))))
              \<lparr>velocity := (Fin (- 100), Fin 200)\<rparr>"
  let ?r = "\<lparr>r_left = - 30, r_top = 875, r_width = 50, r_height = 50\<rparr>"
  have p: "img_size ?p = (50, 50)" "position ?p = (Fin (- 5), Fin 900)"
    "velocity ?p = (Fin (- 100), Fin 200)"
    by (simp_all add: new_player_def)
  have e: "(0::int) \<le> 50" "(50::int) \<le> 1600" "(1600::int) \<le> 2147483647"
    "(50::int) \<le> 800" "(800::int) \<le> 2147483647"
    by simp_all
  have r: "get_rect nearest_int ?p = Inr ?r"
    by (simp add: rect_defs new_player_def)
  from wall_pass_clamps_and_bounces[OF p(1) e(1) e(2) e(3) e(1) e(4) e(5) p(2) p(3) r]
    nearest_int_exact r
  show ?thesis
    by (simp add: wall_collision_def rect_defs new_player_def bounce_x_def bounce_y_def Let_def)
qed

subsection \<open>The bullet checks\<close>

lemma reset_bullet_parks:
  "reset_bullet b =
     \<lparr>b_position = (Fin (- 100), Fin 100), b_velocity = (Fin 0, Fin 0), was_shot = False\<rparr>"
  by (simp add: reset_bullet_def)

lemma opponent_index:
  assumes "length xs = 2" and "i < 2"
  shows "py_index xs (1 - int i) = Inr (xs ! (1 - i))"
proof -
  have "i = 0 \<or> i = 1" using assms(2) by auto
  then show ?thesis using assms(1) by (auto simp: py_index_def)
qed

lemma share_position_length [simp]: "length (share_position p qs) = length qs"
  by (induction qs) simp_all

lemma share_position_nth:
  "j < length qs \<Longrightarrow>
     share_position p qs ! j =
       (if holds_list_of (qs ! j) p then (qs ! j)\<lparr>position := position p\<rparr> else qs ! j)"
proof (induction qs arbitrary: j)
  case Nil
  then show ?case by simp
next
  case (Cons q qs)
  then show ?case by (cases j) simp_all
qed

lemma share_position_keeps:
  assumes "j < length qs"
  shows "bullet (share_position p qs ! j) = bullet (qs ! j)"
    and "score (share_position p qs ! j) = score (qs ! j)"
    and "img_size (share_position p qs ! j) = img_size (qs ! j)"
    and "velocity (share_position p qs ! j) = velocity (qs ! j)"
  using assms by (simp_all add: share_position_nth)

lemma share_position_self:
  "i < length qs \<Longrightarrow> share_position p (qs[i := p]) ! i = p"
  by (simp add: share_position_nth)

lemma check_bullet_length:
  "check_bullet conv i g = Inr g' \<Longrightarrow> length (players g') = length (players g)"
  by (auto simp: check_bullet_def Let_def split: sum.splits if_splits)

lemma check_bullet_screen:
  "check_bullet conv i g = Inr g' \<Longrightarrow>
     screen_width g' = screen_width g \<and> screen_height g' = screen_height g"
  by (auto simp: check_bullet_def Let_def split: sum.splits if_splits)

lemma check_bullet_others:
  "check_bullet conv i g = Inr g' \<Longrightarrow> j \<noteq> i \<Longrightarrow> players g' ! j = players g ! j"
  by (auto simp: check_bullet_def Let_def split: sum.splits if_splits)

lemma check_bullet_rect:
  assumes "check_bullet conv i g = Inr g'"
  obtains r where "bullet_get_rect conv (bullet (players g ! i)) = Inr r"
  using assms by (auto simp: check_bullet_def Let_def split: sum.splits)

lemma check_bullet_outside:
  assumes "i < length (players g)"
      and "bullet_get_rect conv (bullet (players g ! i)) = Inr r"
      and "outside_screen (screen_width g) (screen_height g) r"
      and "check_bullet conv i g = Inr g'"
  shows "bullet (players g' ! i) = reset_bullet (bullet (players g ! i))"
  using assms
  by (auto simp: check_bullet_def Let_def reset_bullet_def split: sum.splits if_splits)

lemma update_keeps:
  assumes "update a dt m p = Inr p'"
  shows "score p' = score p" and "img_size p' = img_size p"
proof -
  from assms obtain q r1 r2 where c: "update_crosshair a m q = Inr r1"
    and f: "shoot_bullet a r1 = Inr r2"
    and p': "p' = r2\<lparr>bullet := update_bullet dt (bullet r2)\<rparr>"
    and q: "score q = score p" "img_size q = img_size p"
    by (auto simp: update_def Let_def update_position_def update_velocity_def
        update_acceleration_def limit_speed_def threshold_velocity_def add_friction_def
        split: sum.splits)
  show "score p' = score p" and "img_size p' = img_size p"
    using update_crosshair_keeps[OF c] shoot_bullet_keeps[OF f] p' q by simp_all
qed

lemma limit_crosshair_keeps:
  assumes "limit_crosshair sw sh p = Inr p'"
  shows "bullet p' = bullet p" and "score p' = score p" and "img_size p' = img_size p"
    and "position p' = position p" and "velocity p' = velocity p"
    and "acceleration p' = acceleration p"
  using assms by (auto simp: limit_crosshair_def split: sum.splits)

lemma wall_collision_keeps:
  assumes "wall_collision conv sw sh p = Inr p'"
  shows "bullet p' = bullet p" and "score p' = score p" and "img_size p' = img_size p"
    and "crosshair p' = crosshair p" and "acceleration p' = acceleration p"
  using assms
  by (auto simp: wall_collision_def Let_def bounce_x_def bounce_y_def split: sum.splits)

text \<open>One pass of the loop body, taken apart.\<close>

lemma player_step_Inr:
  assumes "player_step conv decide mouse i g = Inr g'"
  obtains p1 p2 p3 where
    "update (decide i g) (Fin (1 / 60)) mouse (players g ! i) = Inr p1"
    "limit_crosshair (screen_width g) (screen_height g) p1 = Inr p2"
    "wall_collision conv (screen_width g) (screen_height g) p2 = Inr p3"
    "check_bullet conv i (g\<lparr>players := share_position p3 ((players g)[i := p3])\<rparr>) = Inr g'"
    "bullet p3 = bullet p1" "score p3 = score (players g ! i)"
proof -
  from assms obtain p1 p2 p3 where
    u: "update (decide i g) (Fin (1 / 60)) mouse (players g ! i) = Inr p1"
    and l: "limit_crosshair (screen_width g) (screen_height g) p1 = Inr p2"
    and w: "wall_collision conv (screen_width g) (screen_height g) p2 = Inr p3"
    and c: "check_bullet conv i (g\<lparr>players := share_position p3 ((players g)[i := p3])\<rparr>)
            = Inr g'"
    by (auto simp: player_step_def Let_def split: sum.splits)
  have "bullet p2 = bullet p1" "score p2 = score p1"
    using limit_crosshair_keeps[OF l] by simp_all
  then have "bullet p3 = bullet p1" "score p3 = score (players g ! i)"
    using wall_collision_keeps[OF w] update_keeps[OF u] by simp_all
  with u l w c show ?thesis using that by blast
qed

lemma player_step_length:
  assumes "player_step conv decide mouse i g = Inr g'"
  shows "length (players g') = length (players g)"
proof -
  from assms obtain p3 where
    "check_bullet conv i (g\<lparr>players := share_position p3 ((players g)[i := p3])\<rparr>) = Inr g'"
    by (rule player_step_Inr)
  from check_bullet_length[OF this] show ?thesis by simp
qed

lemma player_step_screen:
  assumes "player_step conv decide mouse i g = Inr g'"
  shows "screen_width g' = screen_width g" and "screen_height g' = screen_height g"
proof -
  from assms obtain p3 where
    "check_bullet conv i (g\<lparr>players := share_position p3 ((players g)[i := p3])\<rparr>) = Inr g'"
    by (rule player_step_Inr)
  from check_bullet_screen[OF this]
  show "screen_width g' = screen_width g" and "screen_height g' = screen_height g"
    by simp_all
qed

text \<open>The loop body of one player leaves the bullets and scores of the others alone.\<close>

lemma player_step_others:
  assumes "player_step conv decide mouse i g = Inr g'" and "j \<noteq> i" and "j < length (players g)"
  shows "bullet (players g' ! j) = bullet (players g ! j)"
    and "score (players g' ! j) = score (players g ! j)"
proof -
  from assms(1) obtain p3 where
    c: "check_bullet conv i (g\<lparr>players := share_position p3 ((players g)[i := p3])\<rparr>) = Inr g'"
    by (rule player_step_Inr)
  have "players g' ! j = share_position p3 ((players g)[i := p3]) ! j"
    using check_bullet_others[OF c assms(2)] by simp
  then show "bullet (players g' ! j) = bullet (players g ! j)"
    and "score (players g' ! j) = score (players g ! j)"
    using assms(2,3) by (simp_all add: share_position_keeps)
qed

text \<open>
  What the loop body of player \<open>i\<close> does to that player's bullet: its rectangle is taken
  after the player's update, and a rectangle beyond an edge of the screen resets it.
\<close>

lemma player_step_bullet:
  assumes "i < length (players g)" and "player_step conv decide mouse i g = Inr g'"
  obtains p r where
    "update (decide i g) (Fin (1 / 60)) mouse (players g ! i) = Inr p"
    "bullet_get_rect conv (bullet p) = Inr r"
    "outside_screen (screen_width g) (screen_height g) r \<longrightarrow>
       bullet (players g' ! i) = reset_bullet (bullet p)"
proof -
  from assms(2) obtain p1 p2 p3 where
    u: "update (decide i g) (Fin (1 / 60)) mouse (players g ! i) = Inr p1"
    and c: "check_bullet conv i (g\<lparr>players := share_position p3 ((players g)[i := p3])\<rparr>)
            = Inr g'"
    and b: "bullet p3 = bullet p1"
    by (rule player_step_Inr)
  let ?g = "g\<lparr>players := share_position p3 ((players g)[i := p3])\<rparr>"
  have i: "i < length (players ?g)" using assms(1) by simp
  have pi: "players ?g ! i = p3"
    using assms(1) by (simp add: share_position_self)
  from c obtain r where r: "bullet_get_rect conv (bullet (players ?g ! i)) = Inr r"
    by (rule check_bullet_rect)
  then have r1: "bullet_get_rect conv (bullet p1) = Inr r"
    using pi b by simp
  have "bullet (players g' ! i) = reset_bullet (bullet p1)"
    if "outside_screen (screen_width g) (screen_height g) r"
  proof -
    have "outside_screen (screen_width ?g) (screen_height ?g) r" using that by simp
    from check_bullet_outside[OF i r this c] show ?thesis using pi b by simp
  qed
  with u r1 show ?thesis using that by blast
qed

subsection \<open>The tick\<close>

lemma players_loop_length:
  "players_loop conv decide mouse idxs g = Inr g' \<Longrightarrow> length (players g') = length (players g)"
proof (induction idxs arbitrary: g)
  case Nil
  then show ?case by simp
next
  case (Cons i rest)
  from Cons.prems obtain g1 where s: "player_step conv decide mouse i g = Inr g1"
    and l: "players_loop conv decide mouse rest g1 = Inr g'"
    by (auto split: sum.splits)
  from Cons.IH[OF l] player_step_length[OF s] show ?case by simp
qed

lemma update_physics_length:
  assumes "update_physics conv decide mouse g = Inr g'"
  shows "length (players g') = length (players g)"
proof -
  from assms obtain g1 where
    l: "players_loop conv decide mouse [0..<length (players g)] g = Inr g1"
    by (auto simp: update_physics_def split: sum.splits)
  have n: "length (players g1) = length (players g)"
    by (rule players_loop_length[OF l])
  from assms l n show ?thesis
    by (auto simp: update_physics_def split: sum.splits if_splits prod.splits)
qed

lemma parse_player_collision_keeps:
  assumes "parse_player_collision conv player1 player2 = Inr (p1, p2)"
  shows "bullet p1 = bullet player1" and "score p1 = score player1"
    and "bullet p2 = bullet player2" and "score p2 = score player2"
  using assms
  by (auto simp: parse_player_collision_def Let_def split: sum.splits if_splits prod.splits)

text \<open>
  A tick of a two-player game is the loop body of player 0, then that of player 1, then
  the collision between the two, which leaves bullets and scores alone.
\<close>

lemma update_physics_two_players:
  assumes "length (players g) = 2" and "update_physics conv decide mouse g = Inr g'"
  obtains ga gb where
    "player_step conv decide mouse 0 g = Inr ga"
    "player_step conv decide mouse 1 ga = Inr gb"
    "bullet (players g' ! 0) = bullet (players ga ! 0)"
    "score (players g' ! 0) = score (players ga ! 0)"
    "bullet (players g' ! 1) = bullet (players gb ! 1)"
    "score (players g' ! 1) = score (players gb ! 1)"
proof -
  have idx: "[0..<length (players g)] = [0, 1]"
    using assms(1) by (simp add: upt_rec)
  from assms(2) obtain gb where l: "players_loop conv decide mouse [0, 1] g = Inr gb"
    by (auto simp: update_physics_def idx split: sum.splits)
  then obtain ga where a: "player_step conv decide mouse 0 g = Inr ga"
    and b: "player_step conv decide mouse 1 ga = Inr gb"
    by (auto split: sum.splits)
  have na: "length (players ga) = 2"
    using player_step_length[OF a] assms(1) by simp
  have n: "length (players gb) = 2"
    using player_step_length[OF b] na by simp
  from assms(2) l n obtain p1 p2 where
    c: "parse_player_collision conv (players gb ! 0) (players gb ! 1) = Inr (p1, p2)"
    and g': "g' = gb\<lparr>players := [p1, p2]\<rparr>"
    by (auto simp: update_physics_def idx split: sum.splits)
  have k: "bullet (players g' ! 0) = bullet (players gb ! 0)"
    "score (players g' ! 0) = score (players gb ! 0)"
    "bullet (players g' ! 1) = bullet (players gb ! 1)"
    "score (players g' ! 1) = score (players gb ! 1)"
    using parse_player_collision_keeps[OF c] by (simp_all add: g')
  have o: "bullet (players gb ! 0) = bullet (players ga ! 0)"
    "score (players gb ! 0) = score (players ga ! 0)"
    using player_step_others[OF b, of 0] na by simp_all
  from a b k o show ?thesis using that by simp
qed

text \<open>With a single player the tick never returns: \<^verbatim>\<open>self.players[1 - i]\<close> raises.\<close>

lemma update_physics_single_player:
  assumes "length (players g) = 1"
  shows "update_physics conv decide mouse g \<noteq> Inr g'"
proof
  assume u: "update_physics conv decide mouse g = Inr g'"
  have idx: "[0..<length (players g)] = [0]"
    using assms by (simp add: upt_rec)
  from u obtain ga where "player_step conv decide mouse 0 g = Inr ga"
    by (auto simp: update_physics_def idx split: sum.splits)
  then obtain p3 where
    c: "check_bullet conv 0 (g\<lparr>players := share_position p3 ((players g)[0 := p3])\<rparr>) = Inr ga"
    by (rule player_step_Inr)
  have "py_index xs 1 = Inl IndexError" if "length xs = 1" for xs :: "Player list"
    using that by (simp add: py_index_def)
  then show False
    using c assms by (auto simp: check_bullet_def Let_def split: sum.splits)
qed

text \<open>
  Claim C9. In every tick of a two-player game that returns, each player's bullet whose
  rectangle, taken after the player's update, lies wholly beyond one edge of the screen
  (right edge left of 0, bottom edge above 0, left edge right of the width or top edge
  below the height) is at the end of the tick parked at (-100, 100) with velocity (0, 0)
  and \<open>was_shot\<close> False, whether it was live or not. Player 1 is updated on the game as
  player 0's turn left it.
\<close>

theorem bullet_outside_screen_is_reset:
  assumes "length (players g) = 2" and "update_physics conv decide mouse g = Inr g'"
  shows "\<exists>ga p0 p1 r0 r1.
           player_step conv decide mouse 0 g = Inr ga
         \<and> update (decide 0 g) (Fin (1 / 60)) mouse (players g ! 0) = Inr p0
         \<and> update (decide 1 ga) (Fin (1 / 60)) mouse (players ga ! 1) = Inr p1
         \<and> bullet_get_rect conv (bullet p0) = Inr r0
         \<and> bullet_get_rect conv (bullet p1) = Inr r1
         \<and> (r_right r0 < 0 \<or> r_bottom r0 < 0 \<or> r_left r0 > screen_width g
              \<or> r_top r0 > screen_height g \<longrightarrow>
              bullet (players g' ! 0) =
                \<lparr>b_position = (Fin (- 100), Fin 100), b_velocity = (Fin 0, Fin 0),
                 was_shot = False\<rparr>)
         \<and> (r_right r1 < 0 \<or> r_bottom r1 < 0 \<or> r_left r1 > screen_width g
              \<or> r_top r1 > screen_height g \<longrightarrow>
              bullet (players g' ! 1) =
                \<lparr>b_position = (Fin (- 100), Fin 100), b_velocity = (Fin 0, Fin 0),
                 was_shot = False\<rparr>)"
proof -
  from assms obtain ga gb where
    a: "player_step conv decide mouse 0 g = Inr ga"
    and b: "player_step conv decide mouse 1 ga = Inr gb"
    and k0: "bullet (players g' ! 0) = bullet (players ga ! 0)"
    and k1: "bullet (players g' ! 1) = bullet (players gb ! 1)"
    by (rule update_physics_two_players)
  have na: "length (players ga) = 2"
    using player_step_length[OF a] assms(1) by simp
  have sa: "screen_width ga = screen_width g" "screen_height ga = screen_height g"
    using player_step_screen[OF a] by simp_all
  have i0: "0 < length (players g)" using assms(1) by simp
  have i1: "1 < length (players ga)" using na by simp
  from player_step_bullet[OF i0 a] obtain p0 r0 where
    u0: "update (decide 0 g) (Fin (1 / 60)) mouse (players g ! 0) = Inr p0"
    and r0: "bullet_get_rect conv (bullet p0) = Inr r0"
    and o0: "outside_screen (screen_width g) (screen_height g) r0 \<longrightarrow>
             bullet (players ga ! 0) = reset_bullet (bullet p0)"
    by blast
  from player_step_bullet[OF i1 b] obtain p1 r1 where
    u1: "update (decide 1 ga) (Fin (1 / 60)) mouse (players ga ! 1) = Inr p1"
    and r1: "bullet_get_rect conv (bullet p1) = Inr r1"
    and o1: "outside_screen (screen_width ga) (screen_height ga) r1 \<longrightarrow>
             bullet (players gb ! 1) = reset_bullet (bullet p1)"
    by blast
  have c0: "r_right r0 < 0 \<or> r_bottom r0 < 0 \<or> r_left r0 > screen_width g
      \<or> r_top r0 > screen_height g \<longrightarrow>
      bullet (players g' ! 0) =
        \<lparr>b_position = (Fin (- 100), Fin 100), b_velocity = (Fin 0, Fin 0), was_shot = False\<rparr>"
    using o0 k0 by (simp add: outside_screen_def reset_bullet_parks)
  have c1: "r_right r1 < 0 \<or> r_bottom r1 < 0 \<or> r_left r1 > screen_width g
      \<or> r_top r1 > screen_height g \<longrightarrow>
      bullet (players g' ! 1) =
        \<lparr>b_position = (Fin (- 100), Fin 100), b_velocity = (Fin 0, Fin 0), was_shot = False\<rparr>"
    using o1 k1 sa by (simp add: outside_screen_def reset_bullet_parks)
  from a u0 u1 r0 r1 c0 c1 show ?thesis by blast
qed

lemmas step_defs = player_step_def check_bullet_def limit_crosshair_def wall_collision_def
  bounce_x_def bounce_y_def outside_screen_def py_index_def holds_list_of_def reset_bullet_def
  rect_defs

theorem bullet_outside_screen_is_reset_witness:
  "update_physics nearest_int idle (0, 0)
     ((new_game None)
        \<lparr>players :=
           [(new_player (50, 50) (Some (Own (Fin 100, Fin 100))))
              \<lparr>bullet := \<lparr>b_position = (Fin 1700, Fin 400), b_velocity = (Fin 100, Fin 0),
                          was_shot = True\<rparr>\<rparr>,
            new_player (50, 50) (Some (Own (Fin 1600, Fin 800)))]\<rparr>)
   = Inr ((new_game None)
        \<lparr>players :=
           [(new_player (50, 50) (Some (Own (Fin 100, Fin 100))))
              \<lparr>bullet := \<lparr>b_position = (Fin (- 100), Fin 100), b_velocity = (Fin 0, Fin 0),
                          was_shot = False\<rparr>\<rparr>,
            (new_player (50, 50) (Some (Own (Fin 1575, Fin 775))))
              \<lparr>bullet := \<lparr>b_position = (Fin (- 100), Fin 100), b_velocity = (Fin 0, Fin 0),
                          was_shot = False\<rparr>\<rparr>]\<rparr>)
   \<and> bullet_get_rect nearest_int
       \<lparr>b_position = (Fin (5105 / 3), Fin 400), b_velocity = (Fin 100, Fin 0), was_shot = True\<rparr>
     = Inr \<lparr>r_left = 1692, r_top = 390, r_width = 20, r_height = 20\<rparr>"
proof -
  let ?b = "\<lparr>b_position = (Fin 1700, Fin 400), b_velocity = (Fin 100, Fin 0), was_shot = True\<rparr>"
  let ?b' = "\<lparr>b_position = (Fin (5105 / 3), Fin 400), b_velocity = (Fin 100, Fin 0),
              was_shot = True\<rparr>"
  let ?parked = "\<lparr>b_position = (Fin (- 100), Fin 100), b_velocity = (Fin 0, Fin 0),
              was_shot = False\<rparr>"
  let ?p0 = "new_player (50, 50) (Some (Own (Fin 100, Fin 100)))"
  let ?p1 = "new_player (50, 50) (Some (Own (Fin 1600, Fin 800)))"
  let ?p1' = "new_player (50, 50) (Some (Own (Fin 1575, Fin 775)))"
  let ?g = "(new_game None)\<lparr>players := [?p0\<lparr>bullet := ?b\<rparr>, ?p1]\<rparr>"
  let ?ga = "(new_game None)\<lparr>players := [?p0\<lparr>bullet := ?parked\<rparr>, ?p1]\<rparr>"
  let ?gb = "(new_game None)\<lparr>players := [?p0\<lparr>bullet := ?parked\<rparr>, ?p1'\<lparr>bullet := ?parked\<rparr>]\<rparr>"
  have u0: "update no_action (Fin (1 / 60)) (0, 0) (?p0\<lparr>bullet := ?b\<rparr>) = Inr (?p0\<lparr>bullet := ?b'\<rparr>)"
    by (simp add: update_defs magnitude_x_axis)
  have u1: "update no_action (Fin (1 / 60)) (0, 0) ?p1 = Inr ?p1"
    by (simp add: update_defs magnitude_x_axis)
  have s0: "player_step nearest_int idle (0, 0) 0 ?g = Inr ?ga"
    unfolding player_step_def Let_def idle_def
    by (simp add: u0) (simp add: step_defs new_player_def new_bullet_def new_game_def)
  have s1: "player_step nearest_int idle (0, 0) (Suc 0) ?ga = Inr ?gb"
    unfolding player_step_def Let_def idle_def
    by (simp add: u1) (simp add: step_defs new_player_def new_bullet_def new_game_def)
  have c: "parse_player_collision nearest_int (?p0\<lparr>bullet := ?parked\<rparr>) (?p1'\<lparr>bullet := ?parked\<rparr>)
           = Inr (?p0\<lparr>bullet := ?parked\<rparr>, ?p1'\<lparr>bullet := ?parked\<rparr>)"
    by (simp add: collision_defs)
  have t: "update_physics nearest_int idle (0, 0) ?g = Inr ?gb"
    unfolding update_physics_def
    by (simp add: upt_rec s0 s1 c)
  have l: "length (players ?g) = 2" by simp
  have r: "bullet_get_rect nearest_int ?b' = Inr \<lparr>r_left = 1692, r_top = 390, r_width = 20, r_height = 20\<rparr>"
    by (simp add: rect_defs)
  show ?thesis
    using t r bullet_outside_screen_is_reset[OF l t] by simp
qed

subsection \<open>Scoring\<close>

text \<open>
  What the loop body of player \<open>i\<close> does to the score in a two-player game: it goes up by
  one exactly when the bullet's rectangle, taken after the player's update, collides with
  the rectangle of the other player, and then the bullet is reset. \<open>was_shot\<close> is not asked.
\<close>

lemma check_bullet_two_players:
  assumes "length (players g) = 2" and "i < 2"
      and "bullet_get_rect conv (bullet (players g ! i)) = Inr r"
      and "get_rect conv (players g ! (1 - i)) = Inr ro"
  shows "check_bullet conv i g =
           Inr (g\<lparr>players := (players g)
                  [i := (players g ! i)
                     \<lparr>score := score (players g ! i) + (if colliderect r ro then 1 else 0),
                      bullet := (if colliderect r ro
                                   \<or> outside_screen (screen_width g) (screen_height g) r
                                 then reset_bullet (bullet (players g ! i))
                                 else bullet (players g ! i))\<rparr>]\<rparr>)"
proof -
  have ne: "1 - i \<noteq> i" using assms(2) by arith
  have idx: "py_index ((players g)[i := q]) (1 - int i) = Inr (players g ! (1 - i))" for q
    using opponent_index[of "(players g)[i := q]" i] assms(1,2) ne by simp
  show ?thesis
    using assms(3,4)
    by (simp add: check_bullet_def Let_def idx reset_bullet_def)
qed

lemma check_bullet_Inr_rects:
  assumes "length (players g) = 2" and "i < 2" and "check_bullet conv i g = Inr g'"
  shows "\<exists>r ro. bullet_get_rect conv (bullet (players g ! i)) = Inr r
                \<and> get_rect conv (players g ! (1 - i)) = Inr ro"
proof -
  have ne: "1 - i \<noteq> i" using assms(2) by arith
  have idx: "py_index ((players g)[i := q]) (1 - int i) = Inr (players g ! (1 - i))" for q
    using opponent_index[of "(players g)[i := q]" i] assms(1,2) ne by simp
  show ?thesis
    using assms(3)
    by (auto simp: check_bullet_def Let_def idx split: sum.splits)
qed

lemma player_step_score:
  assumes "length (players g) = 2" and "i < 2"
      and "player_step conv decide mouse i g = Inr g'"
  obtains p r ro where
    "update (decide i g) (Fin (1 / 60)) mouse (players g ! i) = Inr p"
    "bullet_get_rect conv (bullet p) = Inr r"
    "get_rect conv (players g' ! (1 - i)) = Inr ro"
    "score (players g' ! i) = score (players g ! i) + (if colliderect r ro then 1 else 0)"
    "colliderect r ro \<longrightarrow> bullet (players g' ! i) = reset_bullet (bullet p)"
proof -
  from assms(3) obtain p1 p2 p3 where
    u: "update (decide i g) (Fin (1 / 60)) mouse (players g ! i) = Inr p1"
    and c: "check_bullet conv i (g\<lparr>players := share_position p3 ((players g)[i := p3])\<rparr>)
            = Inr g'"
    and b: "bullet p3 = bullet p1" and sc: "score p3 = score (players g ! i)"
    by (rule player_step_Inr)
  define gs where "gs = g\<lparr>players := share_position p3 ((players g)[i := p3])\<rparr>"
  have c': "check_bullet conv i gs = Inr g'" using c by (simp add: gs_def)
  have ne: "1 - i \<noteq> i" using assms(2) by arith
  have i: "i < length (players g)" using assms(1,2) by simp
  have len: "length (players gs) = 2" using assms(1) by (simp add: gs_def)
  have pi: "players gs ! i = p3"
    using i by (simp add: gs_def share_position_self)
  from check_bullet_Inr_rects[OF len assms(2) c'] obtain r ro where
    r: "bullet_get_rect conv (bullet (players gs ! i)) = Inr r"
    and ro: "get_rect conv (players gs ! (1 - i)) = Inr ro"
    by blast
  have g': "g' = gs\<lparr>players := (players gs)
                  [i := (players gs ! i)
                     \<lparr>score := score (players gs ! i) + (if colliderect r ro then 1 else 0),
                      bullet := (if colliderect r ro
                                   \<or> outside_screen (screen_width gs) (screen_height gs) r
                                 then reset_bullet (bullet (players gs ! i))
                                 else bullet (players gs ! i))\<rparr>]\<rparr>"
    using check_bullet_two_players[OF len assms(2) r ro] c' by simp
  have li: "i < length (players gs)" using len assms(2) by simp
  have r1: "bullet_get_rect conv (bullet p1) = Inr r"
    using r pi b by simp
  have o: "get_rect conv (players g' ! (1 - i)) = Inr ro"
    using ne ro by (simp add: g')
  have s: "score (players g' ! i) = score (players g ! i) + (if colliderect r ro then 1 else 0)"
    using li pi sc by (simp add: g')
  have h: "colliderect r ro \<longrightarrow> bullet (players g' ! i) = reset_bullet (bullet p1)"
    using li pi b by (simp add: g' reset_bullet_def)
  from u r1 o s h show ?thesis using that by blast
qed

text \<open>
  A parked bullet is far left of the screen: it collides with no rectangle that stays
  right of x = -90.
\<close>

lemma parked_rect_misses:
  assumes "exact_on_ints conv" and "bullet_get_rect conv b = Inr r"
      and "b_position b = (Fin (- 100), Fin 100) \<or> b_position b = (Fin (- 100), Fin (- 100))"
      and "- 90 \<le> r_left ro" and "- 90 \<le> r_right ro"
  shows "\<not> colliderect r ro"
proof -
  have "conv (Fin (of_int (- 100))) = Inr (- 100)"
    using assms(1) unfolding exact_on_ints_def by (elim allE[of _ "- 100"]) simp
  then have c: "conv (Fin (- 100)) = Inr (- 100)" by simp
  have l: "int32 (- 110) = - 110" "int32 (- 90) = - 90"
    by (simp_all add: int32_def)
  from assms(2,3) c have "r_left r = - 110"
    by (auto simp: bullet_get_rect_def rect_centered_def l split: sum.splits)
  moreover from assms(2) have "r_width r = 20"
    by (auto simp: bullet_get_rect_def rect_centered_def split: sum.splits)
  ultimately have "r_left r = - 110 \<and> r_right r = - 90"
    by (simp add: r_right_def l)
  then show ?thesis
    using assms(4,5) by (auto simp: colliderect_def)
qed

text \<open>
  Claim C3, at the shipped game with the second player added at (-100, -100), where a new
  bullet is parked. Nobody acts in the first tick. The first player's bullet has never
  been shot, yet its rectangle collides with the second player's and the first player
  ends the tick with score 1: the hit test does not ask \<open>was_shot\<close>, which guards the
  bullet's flight and the firing.
\<close>

theorem parked_bullet_scores_without_being_shot:
  "was_shot (bullet (new_player (50, 50) (Some (Own (Fin 100, Fin 100))))) = False
   \<and> update_physics nearest_int idle (0, 0)
       (add_player (50, 50) (Some (Own (Fin (- 100), Fin (- 100))))
         (add_player (50, 50) (Some (Own (Fin 100, Fin 100))) (new_game None)))
     = Inr ((new_game None)
         \<lparr>players :=
            [(new_player (50, 50) (Some (Own (Fin 100, Fin 100))))
               \<lparr>score := 1, bullet := reset_bullet new_bullet\<rparr>,
             (new_player (50, 50) (Some (Own (Fin 25, Fin 25))))
               \<lparr>bullet := reset_bullet new_bullet\<rparr>]\<rparr>)"
proof -
  let ?p0 = "new_player (50, 50) (Some (Own (Fin 100, Fin 100)))"
  let ?p1 = "new_player (50, 50) (Some (Own (Fin (- 100), Fin (- 100))))"
  let ?p1' = "new_player (50, 50) (Some (Own (Fin 25, Fin 25)))"
  let ?g = "(new_game None)\<lparr>players := [?p0, ?p1]\<rparr>"
  let ?g1 = "(new_game None)\<lparr>players := [?p0\<lparr>score := 1, bullet := reset_bullet new_bullet\<rparr>, ?p1]\<rparr>"
  let ?g2 = "(new_game None)\<lparr>players := [?p0\<lparr>score := 1, bullet := reset_bullet new_bullet\<rparr>,
                                          ?p1'\<lparr>bullet := reset_bullet new_bullet\<rparr>]\<rparr>"
  have g: "add_player (50, 50) (Some (Own (Fin (- 100), Fin (- 100))))
         (add_player (50, 50) (Some (Own (Fin 100, Fin 100))) (new_game None)) = ?g"
    by (simp add: add_player_def new_game_def)
  have u0: "update no_action (Fin (1 / 60)) (0, 0) ?p0 = Inr ?p0"
    by (simp add: update_defs magnitude_x_axis)
  have u1: "update no_action (Fin (1 / 60)) (0, 0) ?p1 = Inr ?p1"
    by (simp add: update_defs magnitude_x_axis)
  have s0: "player_step nearest_int idle (0, 0) 0 ?g = Inr ?g1"
    unfolding player_step_def Let_def idle_def
    by (simp add: u0) (simp add: step_defs new_player_def new_bullet_def new_game_def)
  have s1: "player_step nearest_int idle (0, 0) (Suc 0) ?g1 = Inr ?g2"
    unfolding player_step_def Let_def idle_def
    by (simp add: u1) (simp add: step_defs new_player_def new_bullet_def new_game_def)
  have c: "parse_player_collision nearest_int (?p0\<lparr>score := 1, bullet := reset_bullet new_bullet\<rparr>)
             (?p1'\<lparr>bullet := reset_bullet new_bullet\<rparr>)
           = Inr (?p0\<lparr>score := 1, bullet := reset_bullet new_bullet\<rparr>,
                  ?p1'\<lparr>bullet := reset_bullet new_bullet\<rparr>)"
    by (simp add: collision_defs)
  have "update_physics nearest_int idle (0, 0) ?g = Inr ?g2"
    unfolding update_physics_def
    by (simp add: upt_rec s0 s1 c)
  then show ?thesis
    unfolding g by (simp add: new_player_def new_bullet_def)
qed

subsection \<open>Number of players\<close>

lemma handle_event_players: "handle_event ev g = Inr g' \<Longrightarrow> players g' = players g"
  by (cases ev) (auto split: if_splits)

lemma handle_events_players: "handle_events evs g = Inr g' \<Longrightarrow> players g' = players g"
proof (induction evs arbitrary: g)
  case Nil
  then show ?case by simp
next
  case (Cons ev evs)
  from Cons.prems obtain g1 where e: "handle_event ev g = Inr g1"
    and r: "handle_events evs g1 = Inr g'"
    by (auto split: sum.splits)
  from Cons.IH[OF r] handle_event_players[OF e] show ?case by simp
qed

lemma draw_frame_same: "draw_frame conv g = Inr g' \<Longrightarrow> g' = g"
  by (auto simp: draw_frame_def split: sum.splits)

lemma add_player_length:
  "length (players g) \<le> 2 \<Longrightarrow> length (players (add_player sz pos g)) \<le> 2"
  by (simp add: add_player_def)

lemma reachable_length: "reachable conv g \<Longrightarrow> length (players g) \<le> 2"
proof (induction rule: reachable.induct)
  case (created screen_sz)
  show ?case by (simp add: new_game_def Let_def)
next
  case (added g img_sz pos)
  then show ?case by (simp add: add_player_length)
next
  case (handled g evs g')
  then show ?case using handle_events_players[of evs g g'] by simp
next
  case (stepped g decide mouse g')
  then show ?case using update_physics_length[of conv decide mouse g g'] by simp
next
  case (drawn g g')
  then show ?case using draw_frame_same[of conv g g'] by simp
qed

text \<open>
  Claim C10. \<open>add_player\<close> on a game that already has two players returns the game as it
  was; \<open>update_physics\<close> keeps the number of players, \<open>handle_events\<close> keeps the players and
  \<open>draw_frame\<close> keeps the whole game whenever they return; so no game reached from an
  empty one by these four methods has more than two players.
\<close>

theorem never_more_than_two_players:
  "(length (players g) = 2 \<longrightarrow> add_player img_sz pos g = g)
   \<and> (update_physics conv decide mouse g = Inr g1 \<longrightarrow> length (players g1) = length (players g))
   \<and> (handle_events evs g = Inr g2 \<longrightarrow> players g2 = players g)
   \<and> (draw_frame conv g = Inr g3 \<longrightarrow> g3 = g)
   \<and> (reachable conv g \<longrightarrow> length (players g) \<le> 2)"
  using update_physics_length[of conv decide mouse g g1] handle_events_players[of evs g g2]
    draw_frame_same[of conv g g3] reachable_length[of conv g]
  by (simp add: add_player_def)

theorem never_more_than_two_players_witness:
  "length (players (shipped_game (50, 50))) = 2
   \<and> add_player (50, 50) None (shipped_game (50, 50)) = shipped_game (50, 50)
   \<and> update_physics nearest_int idle (0, 0) (shipped_game (50, 50))
       = Inr ((new_game None)
           \<lparr>players :=
              [(new_player (50, 50) (Some (Own (Fin 100, Fin 100))))
                 \<lparr>bullet := reset_bullet new_bullet\<rparr>,
               (new_player (50, 50) (Some (Own (Fin 1575, Fin 775))))
                 \<lparr>bullet := reset_bullet new_bullet\<rparr>]\<rparr>)
   \<and> handle_events [KEYDOWN K_UP] (shipped_game (50, 50))
       = Inr ((shipped_game (50, 50))
           \<lparr>key_pressed := (key_pressed (shipped_game (50, 50)))(K_UP \<mapsto> True)\<rparr>)
   \<and> draw_frame nearest_int (shipped_game (50, 50)) = Inr (shipped_game (50, 50))
   \<and> reachable nearest_int (shipped_game (50, 50))"
proof -
  let ?p0 = "new_player (50, 50) (Some (Own (Fin 100, Fin 100)))"
  let ?p1 = "new_player (50, 50) (Some (Own (Fin 1600, Fin 800)))"
  let ?p1' = "new_player (50, 50) (Some (Own (Fin 1575, Fin 775)))"
  let ?g = "(new_game None)\<lparr>players := [?p0, ?p1]\<rparr>"
  let ?g1 = "(new_game None)\<lparr>players := [?p0\<lparr>bullet := reset_bullet new_bullet\<rparr>, ?p1]\<rparr>"
  let ?g2 = "(new_game None)\<lparr>players := [?p0\<lparr>bullet := reset_bullet new_bullet\<rparr>,
                                          ?p1'\<lparr>bullet := reset_bullet new_bullet\<rparr>]\<rparr>"
  have g: "shipped_game (50, 50) = ?g"
    by (simp add: shipped_game_def add_player_def new_game_def Let_def)
  have len: "length (players (shipped_game (50, 50))) = 2"
    by (simp add: g)
  have u0: "update no_action (Fin (1 / 60)) (0, 0) ?p0 = Inr ?p0"
    by (simp add: update_defs magnitude_x_axis)
  have u1: "update no_action (Fin (1 / 60)) (0, 0) ?p1 = Inr ?p1"
    by (simp add: update_defs magnitude_x_axis)
  have s0: "player_step nearest_int idle (0, 0) 0 ?g = Inr ?g1"
    unfolding player_step_def Let_def idle_def
    by (simp add: u0) (simp add: step_defs new_player_def new_bullet_def new_game_def)
  have s1: "player_step nearest_int idle (0, 0) (Suc 0) ?g1 = Inr ?g2"
    unfolding player_step_def Let_def idle_def
    by (simp add: u1) (simp add: step_defs new_player_def new_bullet_def new_game_def)
  have c: "parse_player_collision nearest_int (?p0\<lparr>bullet := reset_bullet new_bullet\<rparr>)
             (?p1'\<lparr>bullet := reset_bullet new_bullet\<rparr>)
           = Inr (?p0\<lparr>bullet := reset_bullet new_bullet\<rparr>,
                  ?p1'\<lparr>bullet := reset_bullet new_bullet\<rparr>)"
    by (simp add: collision_defs)
  have up: "update_physics nearest_int idle (0, 0) (shipped_game (50, 50)) = Inr ?g2"
    unfolding update_physics_def g
    by (simp add: upt_rec s0 s1 c)
  have ev: "handle_events [KEYDOWN K_UP] (shipped_game (50, 50))
       = Inr ((shipped_game (50, 50))
           \<lparr>key_pressed := (key_pressed (shipped_game (50, 50)))(K_UP \<mapsto> True)\<rparr>)"
    by (simp add: g new_game_def)
  have dr: "draw_frame nearest_int (shipped_game (50, 50)) = Inr (shipped_game (50, 50))"
    by (simp add: g draw_frame_def rect_defs py_index_def new_player_def new_bullet_def)
  have re: "reachable nearest_int (shipped_game (50, 50))"
    unfolding shipped_game_def Let_def
    by (intro reachable.added reachable.created)
  show ?thesis
    using len up ev dr re
      never_more_than_two_players[of "shipped_game (50, 50)" "(50, 50)" None nearest_int idle
        "(0, 0)" ?g2 "[KEYDOWN K_UP]"
        "(shipped_game (50, 50))
           \<lparr>key_pressed := (key_pressed (shipped_game (50, 50)))(K_UP \<mapsto> True)\<rparr>"
        "shipped_game (50, 50)"]
    by simp
qed

subsection \<open>Players built from one list\<close>

text \<open>
  Two players that were given the same list as their position move together: what the
  loop body of the first one writes into the list is the position of the second one too.
\<close>

lemma players_sharing_a_list_move_together:
  "player_step nearest_int idle (0, 0) 0
     ((new_game None)
        \<lparr>players :=
           [(new_player (50, 50) (Some (Shared 0 (Fin 300, Fin 300))))
              \<lparr>velocity := (Fin 600, Fin 0)\<rparr>,
            new_player (50, 50) (Some (Shared 0 (Fin 300, Fin 300)))]\<rparr>)
   = Inr ((new_game None)
        \<lparr>players :=
           [(new_player (50, 50) (Some (Shared 0 (Fin 310, Fin 300))))
              \<lparr>velocity := (Fin 600, Fin 0), acceleration := (Fin (- 3000), Fin 0),
               bullet := reset_bullet new_bullet\<rparr>,
            new_player (50, 50) (Some (Shared 0 (Fin 310, Fin 300)))]\<rparr>)"
proof -
  let ?p = "new_player (50, 50) (Some (Shared 0 (Fin 300, Fin 300)))"
  let ?q = "new_player (50, 50) (Some (Shared 0 (Fin 310, Fin 300)))"
  have u: "update no_action (Fin (1 / 60)) (0, 0) (?p\<lparr>velocity := (Fin 600, Fin 0)\<rparr>)
      = Inr (?q\<lparr>velocity := (Fin 600, Fin 0), acceleration := (Fin (- 3000), Fin 0)\<rparr>)"
    by (simp add: update_defs magnitude_x_axis)
  show ?thesis
    unfolding player_step_def Let_def idle_def
    by (simp add: u) (simp add: step_defs new_player_def new_bullet_def new_game_def)
qed

lemma second_player_takes_the_list_as_it_is:
  "as_held [(new_player (50, 50) (Some (Shared 0 (Fin 300, Fin 300))))
              \<lparr>position := (Fin 310, Fin 300)\<rparr>]
     (Shared 0 (Fin 300, Fin 300))
   = Shared 0 (Fin 310, Fin 300)"
  by (simp add: new_player_def)

end
